theory Spec2Isabelle
  imports Complex_Main "HOL-Library.AList"
begin

section \<open>JavaScript strings and truthiness\<close>

text \<open>
  The transaction controller of \<^verbatim>\<open>src/lib/transactions.js\<close> is embedded function by
  function. JavaScript strings are character lists. The string methods the controller
  calls are written out: \<^verbatim>\<open>s.endsWith(t)\<close>, \<^verbatim>\<open>s.startsWith(t)\<close> and
  \<^verbatim>\<open>s.slice(0, -k)\<close>. A test \<^verbatim>\<open>if (s)\<close> on a string succeeds exactly when the
  string is defined and not empty.
\<close>

definition endsWith :: "string \<Rightarrow> string \<Rightarrow> bool" where
  "endsWith s t \<longleftrightarrow> length t \<le> length s \<and> drop (length s - length t) s = t"

definition startsWith :: "string \<Rightarrow> string \<Rightarrow> bool" where
  "startsWith s t \<longleftrightarrow> take (length t) s = t"

definition sliceEnd :: "string \<Rightarrow> nat \<Rightarrow> string" where
  \<comment> \<open>\<^verbatim>\<open>s.slice(0, -k)\<close>\<close>
  "sliceEnd s k = take (length s - k) s"

fun truthy :: "string option \<Rightarrow> bool" where
  "truthy None = False"
| "truthy (Some s) = (s \<noteq> [])"

section \<open>The identity lookup service and the controller's state\<close>

text \<open>
  \<^verbatim>\<open>getIdentity\<close> is an RPC of the node. Its callback receives an error, or a reply
  object whose fields \<^verbatim>\<open>identityinfo.friendlyname\<close> and \<^verbatim>\<open>identity.name\<close> may each be
  missing. The service is outside the repository: it is a parameter of the model, and its
  answer may differ from one request to the next, so it is indexed by the number of
  requests made before.
\<close>

datatype 'a rpc = RpcError string | RpcResult 'a

record identity_info =
  friendlyname :: "string option"

record identity_obj =
  identity_name :: "string option"

record identity_reply =
  identityinfo :: "identity_info option"
  identity :: "identity_obj option"

text \<open>
  The state threaded through the controller: the field \<^verbatim>\<open>identityNameCache\<close> of
  \<^verbatim>\<open>TxController\<close>, and the requests sent so far to the two RPCs (the I/O the
  controller performs), oldest first.
\<close>

record state =
  identityNameCache :: "string \<rightharpoonup> string"
  getIdentityLog :: "string list"
  decodeScriptLog :: "string option list"

definition initial :: state where
  \<comment> \<open>the constructor: \<^verbatim>\<open>this.identityNameCache = {}\<close>, no request sent yet\<close>
  "initial = \<lparr>identityNameCache = Map.empty, getIdentityLog = [], decodeScriptLog = []\<rparr>"

section \<open>getIdentityFriendlyName (lines 31-69)\<close>

definition stripSuffixes :: "string \<Rightarrow> string" where
  \<comment> \<open>lines 52-58: first one trailing @, then one trailing .VRSC\<close>
  "stripSuffixes friendlyName =
     (let friendlyName1 = (if endsWith friendlyName ''@'' then sliceEnd friendlyName 1 else friendlyName)
      in if endsWith friendlyName1 ''.VRSC'' then sliceEnd friendlyName1 5 else friendlyName1)"

definition replyFriendlyname :: "identity_reply option \<Rightarrow> string option" where
  \<comment> \<open>\<^verbatim>\<open>identity && identity.identityinfo && identity.identityinfo.friendlyname\<close>\<close>
  "replyFriendlyname reply =
     (case reply of None \<Rightarrow> None
      | Some r \<Rightarrow> (case identityinfo r of None \<Rightarrow> None | Some info \<Rightarrow> friendlyname info))"

definition replyName :: "identity_reply option \<Rightarrow> string option" where
  \<comment> \<open>\<^verbatim>\<open>identity && identity.identity && identity.identity.name\<close>\<close>
  "replyName reply =
     (case reply of None \<Rightarrow> None
      | Some r \<Rightarrow> (case identity r of None \<Rightarrow> None | Some obj \<Rightarrow> identity_name obj))"

definition deriveName :: "string \<Rightarrow> identity_reply option \<Rightarrow> string" where
  \<comment> \<open>lines 46-62\<close>
  "deriveName iAddress reply =
     (if truthy (replyFriendlyname reply)
      then stripSuffixes (case replyFriendlyname reply of Some s \<Rightarrow> s | None \<Rightarrow> [])
      else if truthy (replyName reply)
      then (case replyName reply of Some s \<Rightarrow> s | None \<Rightarrow> [])
      else iAddress)"

text \<open>
  The resolver returns what it passes to its callback, \<^verbatim>\<open>(err, friendlyName)\<close>, and the
  new state. The cache test of line 35 is a truthiness test: an entry holding the empty
  string does not count as a hit.
\<close>

definition getIdentityFriendlyName ::
  "(nat \<Rightarrow> string \<Rightarrow> identity_reply option rpc) \<Rightarrow> string \<Rightarrow> state
     \<Rightarrow> (string option \<times> string) \<times> state" where
  "getIdentityFriendlyName getIdentity iAddress st =
     (if truthy (identityNameCache st iAddress)
      then ((None, case identityNameCache st iAddress of Some s \<Rightarrow> s | None \<Rightarrow> []), st)
      else
        (let st1 = st\<lparr>getIdentityLog := getIdentityLog st @ [iAddress]\<rparr>
         in case getIdentity (length (getIdentityLog st)) iAddress of
              RpcError msg \<Rightarrow> ((None, iAddress), st1)
            | RpcResult reply \<Rightarrow>
                (let friendlyName = deriveName iAddress reply
                 in ((None, friendlyName),
                     st1\<lparr>identityNameCache := (identityNameCache st1)(iAddress \<mapsto> friendlyName)\<rparr>))))"

section \<open>Records of the node and of the public schema\<close>

text \<open>
  Field names are the source's, prefixed by the record they belong to, since the raw and
  the transformed records share many names: \<open>tx_\<close> the raw transaction, \<open>i_\<close> and
  \<open>o_\<close> its inputs and outputs, \<open>t_\<close> the transformed transaction, \<open>vin_\<close> and
  \<open>vout_\<close> its inputs and outputs. A field that may be missing is an option. Payloads the
  controller only copies are values of \<open>json\<close>; amounts are rationals, which the
  controller only copies too.

  Monetary fields are IEEE doubles in the source: \<^verbatim>\<open>satoshis / 1e8\<close>, and the string
  \<^verbatim>\<open>(satoshis / 1e8).toFixed(8)\<close>. The model has no floating point arithmetic and keeps
  both symbolic, by their numerator.
\<close>

datatype json =
  JNull | JBool bool | JNumber rat | JString string | JArray "json list"
| JObject "(string \<times> json) list"

fun truthyJson :: "json option \<Rightarrow> bool" where
  "truthyJson None = False"
| "truthyJson (Some JNull) = False"
| "truthyJson (Some (JBool b)) = b"
| "truthyJson (Some (JNumber x)) = (x \<noteq> 0)"
| "truthyJson (Some (JString s)) = (s \<noteq> [])"
| "truthyJson (Some (JArray xs)) = True"
| "truthyJson (Some (JObject kvs)) = True"

type_synonym amount = rat

type_synonym amounts = "(string \<times> amount) list"
  \<comment> \<open>an object from addresses to amounts, in the order \<^verbatim>\<open>Object.keys\<close> enumerates it\<close>

datatype number = DivBy1e8 int

datatype fixed8 = ToFixed8 number

datatype exn = TypeError | InvalidAddress

record options =
  noScriptSig :: bool
  noAsm :: bool
  noSpent :: bool

record raw_input =
  i_prevTxId :: string
  i_outputIndex :: int
  i_sequence :: int
  i_script :: string
  i_scriptAsm :: "string option"
  i_address :: "string option"
  i_addresses :: "string list option"
  i_satoshis :: int

record destination =
  dest_address :: "string option"
  dest_other :: json

record reservetransfer =
  rt_destination :: "destination option"
  rt_crosssystem :: bool
  rt_exportto :: "string option"
  rt_other :: json

record crosschainimport =
  cci_valuein :: "amounts option"
  cci_valueinFriendly :: "amounts option"
  cci_other :: json

record raw_output =
  o_satoshis :: int
  o_script :: "string option"
  o_scriptAsm :: "string option"
  o_address :: "string option"
  o_addresses :: "string list option"
  o_spentTxId :: "string option"
  o_spentIndex :: "int option"
  o_spentHeight :: "int option"
  o_identityprimary :: "json option"
  o_currencydefinition :: "json option"
  o_script_reserve_balance :: "json option"
  o_finalizeNotarization :: "json option"
  o_crosschainimport :: "crosschainimport option"
  o_crosschainexport :: "json option"
  o_identitycommitment :: "json option"
  o_reservetransfer :: "reservetransfer option"
  o_pbaasNotarization :: "json option"

record raw_joinsplit =
  js_oldZatoshis :: int
  js_newZatoshis :: int

record raw_transaction =
  tx_hash :: string
  tx_version :: int
  tx_locktime :: int
  tx_coinbase :: bool
  tx_inputs :: "raw_input list"
  tx_outputs :: "raw_output list"
  tx_joinSplits :: "raw_joinsplit list"
  tx_blockHash :: "string option"
  tx_height :: int
  tx_blockTimestamp :: "int option"
  tx_outputSatoshis :: int
  tx_inputSatoshis :: int
  tx_feeSatoshis :: int
  tx_hex :: string
  tx_fOverwintered :: bool
  tx_nVersionGroupId :: "json option"
  tx_nExpiryHeight :: "json option"
  tx_valueBalance :: "json option"
  tx_spendDescs :: "json option"
  tx_outputDescs :: "json option"
  tx_bindingSig :: "json option"

text \<open>What \<^verbatim>\<open>decodeScript\<close> answers in \<^verbatim>\<open>decoded.result\<close>.\<close>

record feepool =
  fp_currencyvalues :: "amounts option"
  fp_currencyvaluesFriendly :: "amounts option"
  fp_other :: json

record acceptednotarization =
  an_currencyid :: "string option"
  an_currencyNameFriendly :: "string option"
  an_other :: json

record decoded =
  d_feepool :: "feepool option"
  d_acceptednotarization :: "acceptednotarization option"
  d_p2sh :: "string option"
  d_other :: json

record protocol_entry =
  pe_name :: "json option"
  pe_description :: "json option"
  pe_color :: "json option"
  pe_icon :: "json option"

text \<open>
  Everything the controller reads from outside \<^verbatim>\<open>transactions.js\<close>: the chain height,
  the two RPCs (each answer indexed by the number of requests sent to it before), the
  registry loaded from \<^verbatim>\<open>protocol-addresses.json\<close> (not part of the sources at hand),
  \<^verbatim>\<open>bitcore.Address(a).type\<close> (\<open>None\<close> when the constructor throws) and the clock,
  \<^verbatim>\<open>Math.round(Date.now() / 1000)\<close>.
\<close>

record env =
  bitcoind_height :: int
  getIdentity :: "nat \<Rightarrow> string \<Rightarrow> identity_reply option rpc"
  decodeScript :: "nat \<Rightarrow> string option \<Rightarrow> decoded option rpc"
  PROTOCOL_ADDRESSES_DATA :: "string \<rightharpoonup> protocol_entry"
  bitcoreAddressType :: "string \<Rightarrow> string option"
  now :: int

text \<open>The public schema.\<close>

record scriptSig =
  ssig_hex :: string
  ssig_asm :: "string option"

record tx_in =
  vin_txid :: string
  vin_vout :: int
  vin_sequence :: int
  vin_n :: nat
  vin_scriptSig :: "scriptSig option"
  vin_addr :: "string option"
  vin_valueSat :: int
  vin_value :: number
  vin_doubleSpentTxID :: "string option"

record coinbase_in =
  cb_coinbase :: string
  cb_sequence :: int
  cb_n :: nat

datatype vin = CoinbaseIn coinbase_in | TxIn tx_in

record scriptPubKey =
  spk_hex :: "string option"
  spk_asm :: "string option"
  spk_addresses :: "string list option"
  spk_type :: "string option"

datatype decode_type = OpReturn | FeePool | AcceptedNotarization

datatype commitment = Flag string | Commitment json

record tx_out =
  vout_value :: fixed8
  vout_n :: nat
  vout_scriptPubKey :: scriptPubKey
  vout_identityprimary :: "json option"
  vout_currencydefinition :: "json option"
  vout_script_reserve_balance :: "json option"
  vout_addresses :: "string list option"
  vout_finalizeNotarization :: "json option"
  vout_needsScriptDecode :: bool
  vout_scriptHex :: "string option"
  vout_scriptDecodeType :: "decode_type option"
  vout_isProtocolAddress :: bool
  vout_protocolName :: "json option"
  vout_protocolDescription :: "json option"
  vout_protocolColor :: "json option"
  vout_protocolIcon :: "json option"
  vout_originalProtocolAddress :: "string option"
  vout_crosschainimport :: "crosschainimport option"
  vout_other_commitment :: "commitment option"
  vout_reservetransfer :: "reservetransfer option"
  vout_actualDestination :: "string option"
  vout_isCrossChainToEthereum :: bool
  vout_spentTxId :: "string option option"
  vout_spentIndex :: "int option option"
  vout_spentHeight :: "int option option"
  vout_feepool :: "feepool option"
  vout_acceptednotarization :: "acceptednotarization option"
  vout_p2shAddress :: "string option"
  vout_isP2SH :: bool

record joinsplit =
  vpub_old :: fixed8
  vpub_new :: fixed8
  jsplit_n :: nat

record transformed =
  t_txid :: string
  t_version :: int
  t_locktime :: int
  t_vin :: "vin list"
  t_vout :: "tx_out list"
  t_vjoinsplit :: "joinsplit list option"
  t_blockhash :: "string option"
  t_blockheight :: int
  t_confirmations :: int
  t_time :: int
  t_blocktime :: "int option"
  t_isCoinBase :: bool
  t_valueOut :: number
  t_size :: rat
  t_valueIn :: "number option"
  t_fees :: "number option"
  t_fOverwintered :: bool
  t_nVersionGroupId :: "json option"
  t_nExpiryHeight :: "json option"
  t_valueBalance :: "json option"
  t_spendDescs :: "json option"
  t_outputDescs :: "json option"
  t_bindingSig :: "json option"

section \<open>transformInput, transformOutput, transformJoinSplit (lines 322-458)\<close>

fun join :: "string list \<Rightarrow> string" where
  \<comment> \<open>\<^verbatim>\<open>addresses.join(',')\<close>\<close>
  "join [] = []"
| "join [a] = a"
| "join (a # b # rest) = a @ '','' @ join (b # rest)"

definition transformInput :: "options \<Rightarrow> raw_input \<Rightarrow> nat \<Rightarrow> tx_in" where
  "transformInput options input index =
     \<lparr>vin_txid = i_prevTxId input,
      vin_vout = i_outputIndex input,
      vin_sequence = i_sequence input,
      vin_n = index,
      vin_scriptSig =
        (if noScriptSig options then None
         else Some \<lparr>ssig_hex = i_script input,
                    ssig_asm = (if noAsm options then None else i_scriptAsm input)\<rparr>),
      vin_addr =
        (if truthy (i_address input) then i_address input
         else case i_addresses input of Some addrs \<Rightarrow> Some (join addrs) | None \<Rightarrow> None),
      vin_valueSat = i_satoshis input,
      vin_value = DivBy1e8 (i_satoshis input),
      vin_doubleSpentTxID = None\<rparr>"

definition baseOutput :: "raw_output \<Rightarrow> nat \<Rightarrow> tx_out" where
  \<comment> \<open>lines 352-358: the object literal; every other field is absent\<close>
  "baseOutput output index =
     \<lparr>vout_value = ToFixed8 (DivBy1e8 (o_satoshis output)),
      vout_n = index,
      vout_scriptPubKey =
        \<lparr>spk_hex = o_script output, spk_asm = None, spk_addresses = None, spk_type = None\<rparr>,
      vout_identityprimary = None,
      vout_currencydefinition = None,
      vout_script_reserve_balance = None,
      vout_addresses = None,
      vout_finalizeNotarization = None,
      vout_needsScriptDecode = False,
      vout_scriptHex = None,
      vout_scriptDecodeType = None,
      vout_isProtocolAddress = False,
      vout_protocolName = None,
      vout_protocolDescription = None,
      vout_protocolColor = None,
      vout_protocolIcon = None,
      vout_originalProtocolAddress = None,
      vout_crosschainimport = None,
      vout_other_commitment = None,
      vout_reservetransfer = None,
      vout_actualDestination = None,
      vout_isCrossChainToEthereum = False,
      vout_spentTxId = None,
      vout_spentIndex = None,
      vout_spentHeight = None,
      vout_feepool = None,
      vout_acceptednotarization = None,
      vout_p2shAddress = None,
      vout_isP2SH = False\<rparr>"

definition copyFields :: "raw_output \<Rightarrow> tx_out \<Rightarrow> tx_out" where
  \<comment> \<open>lines 361-375\<close>
  "copyFields output transformed =
     transformed
      \<lparr>vout_identityprimary :=
         (if truthyJson (o_identityprimary output) then o_identityprimary output else None),
       vout_currencydefinition :=
         (if truthyJson (o_currencydefinition output) then o_currencydefinition output else None),
       vout_script_reserve_balance :=
         (if truthyJson (o_script_reserve_balance output) then o_script_reserve_balance output
          else None),
       vout_addresses := o_addresses output,
       vout_finalizeNotarization :=
         (if truthyJson (o_finalizeNotarization output) then o_finalizeNotarization output
          else None)\<rparr>"

definition flagOpReturn :: "raw_output \<Rightarrow> tx_out \<Rightarrow> tx_out" where
  \<comment> \<open>lines 378-382\<close>
  "flagOpReturn output transformed =
     (if truthy (o_scriptAsm output)
         \<and> startsWith (case o_scriptAsm output of Some a \<Rightarrow> a | None \<Rightarrow> []) ''OP_RETURN''
         \<and> truthy (o_script output) \<and> \<not> truthy (o_address output)
      then transformed\<lparr>vout_needsScriptDecode := True, vout_scriptHex := o_script output,
                        vout_scriptDecodeType := Some OpReturn\<rparr>
      else transformed)"

definition outputAddress :: "raw_output \<Rightarrow> string option" where
  \<comment> \<open>line 385: \<^verbatim>\<open>output.address || (output.addresses && output.addresses[0])\<close>\<close>
  "outputAddress output =
     (if truthy (o_address output) then o_address output
      else case o_addresses output of
             None \<Rightarrow> None
           | Some [] \<Rightarrow> None
           | Some (a # rest) \<Rightarrow> Some a)"

definition annotateProtocol :: "env \<Rightarrow> raw_output \<Rightarrow> tx_out \<Rightarrow> tx_out" where
  \<comment> \<open>lines 386-407\<close>
  "annotateProtocol e output transformed =
     (case outputAddress output of
        None \<Rightarrow> transformed
      | Some a \<Rightarrow>
          (case (if a \<noteq> [] then PROTOCOL_ADDRESSES_DATA e a else None) of
             None \<Rightarrow> transformed
           | Some entry \<Rightarrow>
               (let t1 = transformed
                      \<lparr>vout_isProtocolAddress := True,
                       vout_protocolName := pe_name entry,
                       vout_protocolDescription := pe_description entry,
                       vout_protocolColor := pe_color entry,
                       vout_protocolIcon := pe_icon entry,
                       vout_originalProtocolAddress := Some a\<rparr>;
                    t2 = (if a = ''RQ55dLQ7uGnLx8scXfkaFV6QS6qVBGyxAG'' \<and> truthy (o_script output)
                          then t1\<lparr>vout_needsScriptDecode := True, vout_scriptHex := o_script output,
                                  vout_scriptDecodeType := Some FeePool\<rparr>
                          else t1)
                in if a = ''RDTq9qn1Lthv7fvsdbWz36mGp8HK9XaruZ'' \<and> truthy (o_script output)
                   then t2\<lparr>vout_needsScriptDecode := True, vout_scriptHex := o_script output,
                           vout_scriptDecodeType := Some AcceptedNotarization\<rparr>
                   else t2)))"

definition reserveTransferFields :: "reservetransfer \<Rightarrow> tx_out \<Rightarrow> tx_out" where
  \<comment> \<open>lines 418-428\<close>
  "reserveTransferFields r transformed =
     (let t1 = transformed\<lparr>vout_reservetransfer := Some r\<rparr>;
          dest = (case rt_destination r of None \<Rightarrow> None | Some d \<Rightarrow> dest_address d);
          t2 = (if truthy dest
                then (let t3 = t1\<lparr>vout_actualDestination := dest\<rparr>
                      in if rt_crosssystem r
                            \<and> rt_exportto r = Some ''i9nwxtKuVYX4MSbeULLiK2ttVi6rUEhh4X''
                         then t3\<lparr>vout_isCrossChainToEthereum := True\<rparr> else t3)
                else t1)
      in t2\<lparr>vout_other_commitment := Some (Flag ''reservetransfer'')\<rparr>)"

definition commitments :: "raw_output \<Rightarrow> tx_out \<Rightarrow> tx_out" where
  \<comment> \<open>lines 409-431; a later assignment to \<^verbatim>\<open>other_commitment\<close> replaces an earlier one\<close>
  "commitments output transformed =
     (let t1 = (case o_crosschainimport output of
                  Some c \<Rightarrow> transformed\<lparr>vout_crosschainimport := Some c,
                                         vout_other_commitment := Some (Flag ''crosschainimport'')\<rparr>
                | None \<Rightarrow> transformed);
          t2 = (if truthyJson (o_crosschainexport output)
                then t1\<lparr>vout_other_commitment := Some (Flag ''crosschainexport'')\<rparr> else t1);
          t3 = (case o_identitycommitment output of
                  None \<Rightarrow> t2
                | Some JNull \<Rightarrow> t2
                | Some v \<Rightarrow> t2\<lparr>vout_other_commitment := Some (Commitment v)\<rparr>);
          t4 = (case o_reservetransfer output of
                  Some r \<Rightarrow> reserveTransferFields r t3
                | None \<Rightarrow> t3)
      in if truthyJson (o_pbaasNotarization output)
         then t4\<lparr>vout_other_commitment := Some (Flag ''pbaasNotarization'')\<rparr> else t4)"

definition asmAndSpent :: "options \<Rightarrow> raw_output \<Rightarrow> tx_out \<Rightarrow> tx_out" where
  \<comment> \<open>lines 432-441\<close>
  "asmAndSpent options output transformed =
     (let t1 = (if noAsm options then transformed
                else transformed\<lparr>vout_scriptPubKey :=
                       (vout_scriptPubKey transformed)\<lparr>spk_asm := o_scriptAsm output\<rparr>\<rparr>)
      in if noSpent options then t1
         else t1\<lparr>vout_spentTxId :=
                   Some (if truthy (o_spentTxId output) then o_spentTxId output else None),
                 vout_spentIndex := Some (o_spentIndex output),
                 vout_spentHeight :=
                   Some (case o_spentHeight output of
                           None \<Rightarrow> None
                         | Some h \<Rightarrow> if h \<noteq> 0 then Some h else None)\<rparr>)"

definition transformOutput :: "env \<Rightarrow> options \<Rightarrow> raw_output \<Rightarrow> nat \<Rightarrow> exn + tx_out" where
  \<comment> \<open>lines 351-449; \<^verbatim>\<open>bitcore.Address\<close> throws on a string that is no address\<close>
  "transformOutput e options output index =
     (let transformed =
            asmAndSpent options output
              (commitments output
                (annotateProtocol e output
                  (flagOpReturn output (copyFields output (baseOutput output index)))))
      in case o_address output of
           None \<Rightarrow> Inr transformed
         | Some a \<Rightarrow>
             if a = [] then Inr transformed
             else (case bitcoreAddressType e a of
                     None \<Rightarrow> Inl InvalidAddress
                   | Some ty \<Rightarrow>
                       Inr (transformed\<lparr>vout_scriptPubKey :=
                              (vout_scriptPubKey transformed)
                                \<lparr>spk_addresses := Some [a], spk_type := Some ty\<rparr>\<rparr>)))"

definition transformJoinSplit :: "options \<Rightarrow> raw_joinsplit \<Rightarrow> nat \<Rightarrow> joinsplit" where
  "transformJoinSplit options jsdesc index =
     \<lparr>vpub_old = ToFixed8 (DivBy1e8 (js_oldZatoshis jsdesc)),
      vpub_new = ToFixed8 (DivBy1e8 (js_newZatoshis jsdesc)),
      jsplit_n = index\<rparr>"

section \<open>The enrichment of the outputs (lines 135-271)\<close>

text \<open>
  The callbacks of \<^verbatim>\<open>async.parallel\<close> and \<^verbatim>\<open>async.map\<close> are run here one after the
  other, in the order the requests are sent: \<^verbatim>\<open>async.map\<close> returns its results in the
  order of its input whatever the order of completion, the addresses resolved in one wave
  are pairwise distinct, and a resolution writes the cache at its own address only. The
  interleaving of several transforms running at once is not modelled.

  An object used as a mapping is a list of its entries. A source mapping comes in the
  order in which \<^verbatim>\<open>Object.keys\<close> enumerates it; a mapping the controller builds is kept in
  order of insertion, while JavaScript would enumerate keys that are array indices before
  the others: the theorems speak of the entries of such a mapping, not of their order. The
  property names an object inherits from \<^verbatim>\<open>Object.prototype\<close> are not modelled; none of
  them is an address.
\<close>

definition collect :: "string list \<Rightarrow> string list \<Rightarrow> string list" where
  \<comment> \<open>lines 142-146 and 193-197: push every key that starts with i and is not in the list\<close>
  "collect iAddressesToResolve keys =
     foldl (\<lambda>acc iAddress.
              if startsWith iAddress ''i'' \<and> iAddress \<notin> set acc then acc @ [iAddress] else acc)
       iAddressesToResolve keys"

definition scanStep :: "string list \<times> nat list \<Rightarrow> nat \<times> tx_out \<Rightarrow> string list \<times> nat list" where
  \<comment> \<open>lines 140-151, one output\<close>
  "scanStep acc p =
     (let iAddressesToResolve = fst acc; scriptsToDecodeIndices = snd acc;
          idx = fst p; vout = snd p;
          addrs1 = (case vout_crosschainimport vout of
                      None \<Rightarrow> iAddressesToResolve
                    | Some c \<Rightarrow>
                        (case cci_valuein c of
                           None \<Rightarrow> iAddressesToResolve
                         | Some valuein \<Rightarrow> collect iAddressesToResolve (map fst valuein)))
      in (addrs1,
          if vout_needsScriptDecode vout then scriptsToDecodeIndices @ [idx]
          else scriptsToDecodeIndices))"

definition scan :: "tx_out list \<Rightarrow> string list \<times> nat list" where
  "scan vout = foldl scanStep ([], []) (enumerate 0 vout)"

record decode_item =
  item_idx :: nat
  item_decoded :: "decoded option"
  item_type :: "decode_type option"

fun decodeScripts :: "env \<Rightarrow> tx_out list \<Rightarrow> nat list \<Rightarrow> state \<Rightarrow> decode_item list \<times> state" where
  \<comment> \<open>lines 160-170: one \<^verbatim>\<open>decodeScript\<close> request for each flagged output; the indices
      come from the scan and are in range (lemma \<open>flagged_in_range\<close>)\<close>
  "decodeScripts e vouts [] st = ([], st)"
| "decodeScripts e vouts (voutIdx # rest) st =
     (let vout = vouts ! voutIdx;
          reply = decodeScript e (length (decodeScriptLog st)) (vout_scriptHex vout);
          st1 = st\<lparr>decodeScriptLog := decodeScriptLog st @ [vout_scriptHex vout]\<rparr>;
          item = \<lparr>item_idx = voutIdx,
                  item_decoded = (case reply of RpcError msg \<Rightarrow> None | RpcResult r \<Rightarrow> r),
                  item_type = vout_scriptDecodeType vout\<rparr>;
          r = decodeScripts e vouts rest st1
      in (item # fst r, snd r))"

fun resolveNames ::
  "(nat \<Rightarrow> string \<Rightarrow> identity_reply option rpc) \<Rightarrow> string list \<Rightarrow> state
     \<Rightarrow> (string \<times> string) list \<times> state" where
  \<comment> \<open>lines 177-181 and 221-225: the pairs \<^verbatim>\<open>{iAddress, friendlyName}\<close>\<close>
  "resolveNames gi [] st = ([], st)"
| "resolveNames gi (iAddress # rest) st =
     (let r1 = getIdentityFriendlyName gi iAddress st;
          r = resolveNames gi rest (snd r1)
      in ((iAddress, snd (fst r1)) # fst r, snd r))"

definition processItem :: "tx_out list \<times> string list \<Rightarrow> decode_item \<Rightarrow> tx_out list \<times> string list" where
  \<comment> \<open>lines 186-216, one decoded script\<close>
  "processItem acc item =
     (let vouts = fst acc; iAddressesToResolve = snd acc; vout = vouts ! item_idx item
      in case item_decoded item of
           None \<Rightarrow> acc
         | Some d \<Rightarrow>
             (case item_type item of
                None \<Rightarrow> acc
              | Some FeePool \<Rightarrow>
                  (case d_feepool d of
                     None \<Rightarrow> acc
                   | Some fp \<Rightarrow>
                       (case fp_currencyvalues fp of
                          None \<Rightarrow> acc
                        | Some currencyvalues \<Rightarrow>
                            (vouts[item_idx item := vout\<lparr>vout_feepool := Some fp\<rparr>],
                             collect iAddressesToResolve (map fst currencyvalues))))
              | Some AcceptedNotarization \<Rightarrow>
                  (case d_acceptednotarization d of
                     None \<Rightarrow> acc
                   | Some an \<Rightarrow>
                       (vouts[item_idx item := vout\<lparr>vout_acceptednotarization := Some an\<rparr>],
                        case an_currencyid an of
                          None \<Rightarrow> iAddressesToResolve
                        | Some currencyid \<Rightarrow>
                            if startsWith currencyid ''i'' \<and> currencyid \<notin> set iAddressesToResolve
                            then iAddressesToResolve @ [currencyid]
                            else iAddressesToResolve))
              | Some OpReturn \<Rightarrow>
                  (if truthy (d_p2sh d)
                   then (vouts[item_idx item := vout\<lparr>vout_p2shAddress := d_p2sh d,
                                                     vout_isP2SH := True\<rparr>],
                         iAddressesToResolve)
                   else acc)))"

definition nameMapping :: "(string \<times> string) list \<Rightarrow> (string \<rightharpoonup> string)" where
  \<comment> \<open>lines 238-241\<close>
  "nameMapping namesResolved =
     foldl (\<lambda>m result. m(fst result \<mapsto> snd result)) Map.empty namesResolved"

definition friendlyKey :: "(string \<rightharpoonup> string) \<Rightarrow> string \<Rightarrow> string" where
  \<comment> \<open>lines 248 and 257: \<^verbatim>\<open>nameMapping[iAddress] || iAddress\<close>\<close>
  "friendlyKey names iAddress =
     (case names iAddress of None \<Rightarrow> iAddress | Some n \<Rightarrow> if n \<noteq> [] then n else iAddress)"

definition friendlyMapping :: "(string \<rightharpoonup> string) \<Rightarrow> amounts \<Rightarrow> amounts" where
  \<comment> \<open>lines 246-250 and 255-259: the loop takes each key of the source with the value the
      source holds for it; an assignment \<^verbatim>\<open>o[k] = v\<close> replaces the value of a key the object
      has, and adds the key last otherwise\<close>
  "friendlyMapping names m =
     foldl (\<lambda>friendly kv. AList.update (friendlyKey names (fst kv)) (snd kv) friendly) [] m"

definition applyNames :: "(string \<rightharpoonup> string) \<Rightarrow> tx_out \<Rightarrow> tx_out" where
  \<comment> \<open>lines 244-267, one output\<close>
  "applyNames names vout =
     (let v1 = (case vout_crosschainimport vout of
                  None \<Rightarrow> vout
                | Some c \<Rightarrow>
                    (case cci_valuein c of
                       None \<Rightarrow> vout
                     | Some valuein \<Rightarrow>
                         vout\<lparr>vout_crosschainimport :=
                                Some (c\<lparr>cci_valueinFriendly :=
                                          Some (friendlyMapping names valuein)\<rparr>)\<rparr>));
          v2 = (case vout_feepool v1 of
                  None \<Rightarrow> v1
                | Some fp \<Rightarrow>
                    (case fp_currencyvalues fp of
                       None \<Rightarrow> v1
                     | Some currencyvalues \<Rightarrow>
                         v1\<lparr>vout_feepool :=
                              Some (fp\<lparr>fp_currencyvaluesFriendly :=
                                         Some (friendlyMapping names currencyvalues)\<rparr>)\<rparr>))
      in case vout_acceptednotarization v2 of
           None \<Rightarrow> v2
         | Some an \<Rightarrow>
             (case an_currencyid an of
                None \<Rightarrow> v2
              | Some currencyId \<Rightarrow>
                  if currencyId = [] then v2
                  else v2\<lparr>vout_acceptednotarization :=
                            Some (an\<lparr>an_currencyNameFriendly :=
                                       Some (friendlyKey names currencyId)\<rparr>)\<rparr>))"

text \<open>
  The stages of the enrichment, each a function of the outputs as \<^verbatim>\<open>transformOutput\<close>
  left them and of the state at the start: the scan, the first wave (decoding, then
  resolving), the expansion of the decoded scripts, the second wave, and the merge.
\<close>

definition wave1Addresses :: "tx_out list \<Rightarrow> string list" where
  "wave1Addresses vout = fst (scan vout)"

definition scriptsToDecodeIndices :: "tx_out list \<Rightarrow> nat list" where
  "scriptsToDecodeIndices vout = snd (scan vout)"

definition scriptsDecoded :: "env \<Rightarrow> tx_out list \<Rightarrow> state \<Rightarrow> decode_item list \<times> state" where
  \<comment> \<open>lines 156-171\<close>
  "scriptsDecoded e vout st =
     (if scriptsToDecodeIndices vout = [] then ([], st)
      else decodeScripts e vout (scriptsToDecodeIndices vout) st)"

definition namesResolved :: "env \<Rightarrow> tx_out list \<Rightarrow> state \<Rightarrow> (string \<times> string) list \<times> state" where
  \<comment> \<open>lines 173-182, after the decode requests were sent\<close>
  "namesResolved e vout st =
     (if wave1Addresses vout = [] then ([], snd (scriptsDecoded e vout st))
      else resolveNames (getIdentity e) (wave1Addresses vout) (snd (scriptsDecoded e vout st)))"

definition expanded :: "env \<Rightarrow> tx_out list \<Rightarrow> state \<Rightarrow> tx_out list \<times> string list" where
  \<comment> \<open>lines 185-216: the outputs and \<^verbatim>\<open>iAddressesToResolve\<close> after the decoded scripts\<close>
  "expanded e vout st =
     (if fst (scriptsDecoded e vout st) \<noteq> []
      then foldl processItem (vout, wave1Addresses vout) (fst (scriptsDecoded e vout st))
      else (vout, wave1Addresses vout))"

definition newAddresses :: "env \<Rightarrow> tx_out list \<Rightarrow> state \<Rightarrow> string list" where
  \<comment> \<open>lines 219-220; empty when the second wave is skipped\<close>
  "newAddresses e vout st =
     (if fst (scriptsDecoded e vout st) \<noteq> []
         \<and> length (snd (expanded e vout st)) > length (fst (namesResolved e vout st))
      then drop (length (fst (namesResolved e vout st))) (snd (expanded e vout st))
      else [])"

definition newResults :: "env \<Rightarrow> tx_out list \<Rightarrow> state \<Rightarrow> (string \<times> string) list \<times> state" where
  \<comment> \<open>lines 221-225: the second wave\<close>
  "newResults e vout st =
     (if newAddresses e vout st = [] then ([], snd (namesResolved e vout st))
      else resolveNames (getIdentity e) (newAddresses e vout st) (snd (namesResolved e vout st)))"

definition allNames :: "env \<Rightarrow> tx_out list \<Rightarrow> state \<Rightarrow> (string \<rightharpoonup> string)" where
  \<comment> \<open>line 226 and lines 238-241\<close>
  "allNames e vout st =
     nameMapping (fst (namesResolved e vout st) @ fst (newResults e vout st))"

definition enrich :: "env \<Rightarrow> tx_out list \<Rightarrow> state \<Rightarrow> tx_out list \<times> state" where
  "enrich e vout st =
     (map (applyNames (allNames e vout st)) (fst (expanded e vout st)),
      snd (newResults e vout st))"

section \<open>transformTransaction (lines 102-320)\<close>

fun traverse :: "('a \<Rightarrow> exn + 'b) \<Rightarrow> 'a list \<Rightarrow> exn + 'b list" where
  \<comment> \<open>\<^verbatim>\<open>Array.prototype.map\<close> with a callback that may throw\<close>
  "traverse f [] = Inr []"
| "traverse f (x # xs) =
     (case f x of
        Inl err \<Rightarrow> Inl err
      | Inr y \<Rightarrow> (case traverse f xs of Inl err \<Rightarrow> Inl err | Inr ys \<Rightarrow> Inr (y # ys)))"

definition transformVin :: "options \<Rightarrow> raw_transaction \<Rightarrow> exn + vin list" where
  \<comment> \<open>lines 120-130; \<^verbatim>\<open>transaction.inputs[0].script\<close> throws when there is no input\<close>
  "transformVin options transaction =
     (if tx_coinbase transaction
      then (case tx_inputs transaction of
              [] \<Rightarrow> Inl TypeError
            | input0 # rest \<Rightarrow>
                Inr [CoinbaseIn \<lparr>cb_coinbase = i_script input0,
                                 cb_sequence = i_sequence input0, cb_n = 0\<rparr>])
      else Inr (map (\<lambda>p. TxIn (transformInput options (snd p) (fst p)))
                  (enumerate 0 (tx_inputs transaction))))"

definition transformVout :: "env \<Rightarrow> options \<Rightarrow> raw_transaction \<Rightarrow> exn + tx_out list" where
  \<comment> \<open>line 132\<close>
  "transformVout e options transaction =
     traverse (\<lambda>p. transformOutput e options (snd p) (fst p))
       (enumerate 0 (tx_outputs transaction))"

definition continueTransform ::
  "env \<Rightarrow> options \<Rightarrow> raw_transaction \<Rightarrow> int \<Rightarrow> vin list \<Rightarrow> tx_out list \<Rightarrow> transformed" where
  \<comment> \<open>lines 114-118 and 273-319\<close>
  "continueTransform e options transaction confirmations vin vout =
     (let time = (case tx_blockTimestamp transaction of
                    None \<Rightarrow> now e
                  | Some ts \<Rightarrow> if ts \<noteq> 0 then ts else now e);
          sapling = (tx_fOverwintered transaction \<and> tx_version transaction \<ge> 4)
      in \<lparr>t_txid = tx_hash transaction,
          t_version = tx_version transaction,
          t_locktime = tx_locktime transaction,
          t_vin = vin,
          t_vout = vout,
          t_vjoinsplit =
            (if tx_version transaction \<ge> 2
             then Some (map (\<lambda>p. transformJoinSplit options (snd p) (fst p))
                          (enumerate 0 (tx_joinSplits transaction)))
             else None),
          t_blockhash = tx_blockHash transaction,
          t_blockheight = tx_height transaction,
          t_confirmations = confirmations,
          t_time = time,
          t_blocktime = (if confirmations \<noteq> 0 then Some time else None),
          t_isCoinBase = tx_coinbase transaction,
          t_valueOut = DivBy1e8 (tx_outputSatoshis transaction),
          t_size = of_nat (length (tx_hex transaction)) / 2,
          t_valueIn =
            (if tx_coinbase transaction then None
             else Some (DivBy1e8 (tx_inputSatoshis transaction))),
          t_fees =
            (if tx_coinbase transaction then None
             else Some (DivBy1e8 (tx_feeSatoshis transaction))),
          t_fOverwintered = tx_fOverwintered transaction,
          t_nVersionGroupId =
            (if tx_fOverwintered transaction then tx_nVersionGroupId transaction else None),
          t_nExpiryHeight =
            (if tx_fOverwintered transaction then tx_nExpiryHeight transaction else None),
          t_valueBalance = (if sapling then tx_valueBalance transaction else None),
          t_spendDescs = (if sapling then tx_spendDescs transaction else None),
          t_outputDescs = (if sapling then tx_outputDescs transaction else None),
          t_bindingSig =
            (if sapling \<and> truthyJson (tx_bindingSig transaction)
             then tx_bindingSig transaction else None)\<rparr>)"

text \<open>
  The result is \<open>Inl\<close> when the synchronous part throws, and otherwise \<open>Inr\<close> of what
  the callback receives, \<^verbatim>\<open>callback(null, transformed)\<close> at line 318 (the only call of
  the callback), with the state the transform leaves.
\<close>

definition transformTransaction ::
  "env \<Rightarrow> options \<Rightarrow> raw_transaction \<Rightarrow> state \<Rightarrow> exn + (transformed \<times> state)" where
  "transformTransaction e options transaction st =
     (let confirmations =
            (if tx_height transaction \<ge> 0
             then bitcoind_height e - tx_height transaction + 1 else 0)
      in case transformVin options transaction of
           Inl err \<Rightarrow> Inl err
         | Inr vin \<Rightarrow>
             (case transformVout e options transaction of
                Inl err \<Rightarrow> Inl err
              | Inr vout \<Rightarrow>
                  Inr (continueTransform e options transaction confirmations vin
                         (fst (enrich e vout st)),
                       snd (enrich e vout st))))"

section \<open>Observations of a transform\<close>

text \<open>
  Names for what the theorems speak of: the keys of an output's \<^verbatim>\<open>valuein\<close>, the outputs as
  \<^verbatim>\<open>transformOutput\<close> leaves them, the answer to the \<^verbatim>\<open>decodeScript\<close> request for the
  \<open>k\<close>-th flagged output, the outputs a transform passes to its callback, and the two
  friendly-keyed mappings of an output.
\<close>

definition valueinKeys :: "tx_out \<Rightarrow> string list" where
  "valueinKeys vout =
     (case vout_crosschainimport vout of
        None \<Rightarrow> []
      | Some c \<Rightarrow> (case cci_valuein c of None \<Rightarrow> [] | Some valuein \<Rightarrow> map fst valuein))"

definition skeleton :: "env \<Rightarrow> options \<Rightarrow> raw_transaction \<Rightarrow> tx_out list" where
  "skeleton e options transaction =
     (case transformVout e options transaction of Inl err \<Rightarrow> [] | Inr vout \<Rightarrow> vout)"

definition decodeReply :: "env \<Rightarrow> tx_out list \<Rightarrow> state \<Rightarrow> nat \<Rightarrow> decoded option rpc" where
  "decodeReply e vout st k =
     decodeScript e (length (decodeScriptLog st) + k)
       (vout_scriptHex (vout ! (scriptsToDecodeIndices vout ! k)))"

definition outputsOf :: "exn + (transformed \<times> state) \<Rightarrow> tx_out list" where
  "outputsOf r = (case r of Inl err \<Rightarrow> [] | Inr p \<Rightarrow> t_vout (fst p))"

definition valueinFriendlyOf :: "tx_out \<Rightarrow> amounts option" where
  "valueinFriendlyOf vout =
     (case vout_crosschainimport vout of None \<Rightarrow> None | Some c \<Rightarrow> cci_valueinFriendly c)"

definition currencyvaluesFriendlyOf :: "tx_out \<Rightarrow> amounts option" where
  "currencyvaluesFriendlyOf vout =
     (case vout_feepool vout of None \<Rightarrow> None | Some fp \<Rightarrow> fp_currencyvaluesFriendly fp)"

definition friendlyPairs :: "tx_out \<Rightarrow> (amounts \<times> amounts option) list" where
  \<comment> \<open>each source mapping of an output with its friendly-keyed mapping: \<^verbatim>\<open>valuein\<close> with
      \<^verbatim>\<open>valueinFriendly\<close>, \<^verbatim>\<open>currencyvalues\<close> with \<^verbatim>\<open>currencyvaluesFriendly\<close>\<close>
  "friendlyPairs vout =
     (case vout_crosschainimport vout of
        None \<Rightarrow> []
      | Some c \<Rightarrow> (case cci_valuein c of None \<Rightarrow> [] | Some m \<Rightarrow> [(m, cci_valueinFriendly c)]))
     @ (case vout_feepool vout of
          None \<Rightarrow> []
        | Some fp \<Rightarrow>
            (case fp_currencyvalues fp of None \<Rightarrow> [] | Some m \<Rightarrow> [(m, fp_currencyvaluesFriendly fp)]))"

section \<open>Example inputs\<close>

text \<open>
  A node at height 105 whose identity service knows the address \<^verbatim>\<open>iAAA\<close> only and whose
  \<^verbatim>\<open>decodeScript\<close> fails, a confirmed transaction without inputs and outputs, and an
  output and an input for it; the examples below vary them.
\<close>

definition exampleOptions :: options where
  "exampleOptions = \<lparr>noScriptSig = False, noAsm = False, noSpent = False\<rparr>"

definition exampleEntry :: protocol_entry where
  "exampleEntry = \<lparr>pe_name = Some (JString ''Fee Pool''), pe_description = None,
                    pe_color = None, pe_icon = None\<rparr>"

definition exampleEnv :: env where
  "exampleEnv =
     \<lparr>bitcoind_height = 105,
      getIdentity = (\<lambda>n a. if a = ''iAAA''
                            then RpcResult (Some \<lparr>identityinfo = Some \<lparr>friendlyname = Some ''alice@''\<rparr>,
                                                   identity = None\<rparr>)
                            else RpcError ''Identity not found''),
      decodeScript = (\<lambda>n s. RpcError ''decode failed''),
      PROTOCOL_ADDRESSES_DATA =
        [''RQ55dLQ7uGnLx8scXfkaFV6QS6qVBGyxAG'' \<mapsto> exampleEntry,
         ''RDTq9qn1Lthv7fvsdbWz36mGp8HK9XaruZ'' \<mapsto> exampleEntry],
      bitcoreAddressType = (\<lambda>a. Some ''pubkeyhash''),
      now = 1700000600\<rparr>"

definition exampleOutput :: raw_output where
  "exampleOutput =
     \<lparr>o_satoshis = 123456789, o_script = Some ''76a914'', o_scriptAsm = Some ''OP_DUP'',
      o_address = None, o_addresses = None, o_spentTxId = None, o_spentIndex = None,
      o_spentHeight = None, o_identityprimary = None, o_currencydefinition = None,
      o_script_reserve_balance = None, o_finalizeNotarization = None,
      o_crosschainimport = None, o_crosschainexport = None, o_identitycommitment = None,
      o_reservetransfer = None, o_pbaasNotarization = None\<rparr>"

definition exampleInput :: raw_input where
  "exampleInput =
     \<lparr>i_prevTxId = ''aa'', i_outputIndex = 0, i_sequence = 4294967295, i_script = ''04ffff'',
      i_scriptAsm = None, i_address = None, i_addresses = None, i_satoshis = 0\<rparr>"

definition exampleTx :: raw_transaction where
  "exampleTx =
     \<lparr>tx_hash = ''ab'', tx_version = 1, tx_locktime = 0, tx_coinbase = False,
      tx_inputs = [], tx_outputs = [], tx_joinSplits = [], tx_blockHash = Some ''00'',
      tx_height = 100, tx_blockTimestamp = Some 1700000000, tx_outputSatoshis = 100000000,
      tx_inputSatoshis = 100001000, tx_feeSatoshis = 1000, tx_hex = ''0100'',
      tx_fOverwintered = False, tx_nVersionGroupId = None, tx_nExpiryHeight = None,
      tx_valueBalance = None, tx_spendDescs = None, tx_outputDescs = None,
      tx_bindingSig = None\<rparr>"

text \<open>
  An output that carries the \<^verbatim>\<open>valuein\<close> mapping \<^verbatim>\<open>{"iAAA": 100, "iBBB": 50}\<close>, a node
  that resolves every address to \<^verbatim>\<open>alice\<close>, an output at the fee-pool address, and a node
  whose \<^verbatim>\<open>decodeScript\<close> answers a fee pool holding the address \<^verbatim>\<open>iNEW\<close> and whose
  identity service answers one given friendly name. \<open>importSkeleton\<close> and \<open>feeSkeleton\<close>
  are what \<^verbatim>\<open>transformOutput\<close> makes of the two outputs.
\<close>

definition importOutput :: raw_output where
  "importOutput = exampleOutput
     \<lparr>o_crosschainimport :=
        Some \<lparr>cci_valuein = Some [(''iAAA'', 100), (''iBBB'', 50)],
              cci_valueinFriendly = None, cci_other = JNull\<rparr>\<rparr>"

definition importTx :: raw_transaction where
  "importTx = exampleTx\<lparr>tx_outputs := [importOutput]\<rparr>"

definition sameNameEnv :: env where
  "sameNameEnv = exampleEnv
     \<lparr>getIdentity :=
        (\<lambda>n a. RpcResult (Some \<lparr>identityinfo = Some \<lparr>friendlyname = Some ''alice@''\<rparr>,
                                 identity = None\<rparr>))\<rparr>"

definition feeOutput :: raw_output where
  "feeOutput = exampleOutput\<lparr>o_address := Some ''RQ55dLQ7uGnLx8scXfkaFV6QS6qVBGyxAG''\<rparr>"

definition feeTx :: raw_transaction where
  "feeTx = exampleTx\<lparr>tx_outputs := [feeOutput]\<rparr>"

definition feeDecoded :: decoded where
  "feeDecoded =
     \<lparr>d_feepool = Some \<lparr>fp_currencyvalues = Some [(''iNEW'', 5)],
                        fp_currencyvaluesFriendly = None, fp_other = JNull\<rparr>,
      d_acceptednotarization = None, d_p2sh = None, d_other = JNull\<rparr>"

definition feeEnv :: "string \<Rightarrow> env" where
  "feeEnv friendly = exampleEnv
     \<lparr>getIdentity :=
        (\<lambda>n a. RpcResult (Some \<lparr>identityinfo = Some \<lparr>friendlyname = Some friendly\<rparr>,
                                 identity = None\<rparr>)),
      decodeScript := (\<lambda>n s. RpcResult (Some feeDecoded))\<rparr>"

definition importSkeleton :: tx_out where
  "importSkeleton =
     \<lparr>vout_value = ToFixed8 (DivBy1e8 123456789), vout_n = 0,
      vout_scriptPubKey =
        \<lparr>spk_hex = Some ''76a914'', spk_asm = Some ''OP_DUP'', spk_addresses = None,
         spk_type = None\<rparr>,
      vout_identityprimary = None, vout_currencydefinition = None,
      vout_script_reserve_balance = None, vout_addresses = None,
      vout_finalizeNotarization = None, vout_needsScriptDecode = False, vout_scriptHex = None,
      vout_scriptDecodeType = None, vout_isProtocolAddress = False, vout_protocolName = None,
      vout_protocolDescription = None, vout_protocolColor = None, vout_protocolIcon = None,
      vout_originalProtocolAddress = None,
      vout_crosschainimport =
        Some \<lparr>cci_valuein = Some [(''iAAA'', 100), (''iBBB'', 50)],
              cci_valueinFriendly = None, cci_other = JNull\<rparr>,
      vout_other_commitment = Some (Flag ''crosschainimport''), vout_reservetransfer = None,
      vout_actualDestination = None, vout_isCrossChainToEthereum = False,
      vout_spentTxId = Some None, vout_spentIndex = Some None, vout_spentHeight = Some None,
      vout_feepool = None, vout_acceptednotarization = None, vout_p2shAddress = None,
      vout_isP2SH = False\<rparr>"

definition feeSkeleton :: tx_out where
  "feeSkeleton =
     \<lparr>vout_value = ToFixed8 (DivBy1e8 123456789), vout_n = 0,
      vout_scriptPubKey =
        \<lparr>spk_hex = Some ''76a914'', spk_asm = Some ''OP_DUP'',
         spk_addresses = Some [''RQ55dLQ7uGnLx8scXfkaFV6QS6qVBGyxAG''],
         spk_type = Some ''pubkeyhash''\<rparr>,
      vout_identityprimary = None, vout_currencydefinition = None,
      vout_script_reserve_balance = None, vout_addresses = None,
      vout_finalizeNotarization = None, vout_needsScriptDecode = True,
      vout_scriptHex = Some ''76a914'', vout_scriptDecodeType = Some FeePool,
      vout_isProtocolAddress = True, vout_protocolName = Some (JString ''Fee Pool''),
      vout_protocolDescription = None, vout_protocolColor = None, vout_protocolIcon = None,
      vout_originalProtocolAddress = Some ''RQ55dLQ7uGnLx8scXfkaFV6QS6qVBGyxAG'',
      vout_crosschainimport = None, vout_other_commitment = None,
      vout_reservetransfer = None, vout_actualDestination = None,
      vout_isCrossChainToEthereum = False, vout_spentTxId = Some None,
      vout_spentIndex = Some None, vout_spentHeight = Some None, vout_feepool = None,
      vout_acceptednotarization = None, vout_p2shAddress = None, vout_isP2SH = False\<rparr>"

section \<open>The suffixes\<close>

lemma endsWith_iff: "endsWith s t \<longleftrightarrow> (\<exists>p. s = p @ t)"
  unfolding endsWith_def
  by (metis append_eq_conv_conj append_take_drop_id diff_add_inverse2 le_add2 length_append)

lemma sliceEnd_append: "length t = k \<Longrightarrow> sliceEnd (p @ t) k = p"
  by (simp add: sliceEnd_def)

lemma stripSuffixes_at_vrsc: "stripSuffixes (p @ ''.VRSC@'') = p"
proof -
  have e: "endsWith (p @ ''.VRSC@'') ''@''"
    unfolding endsWith_iff by (rule exI [of _ "p @ ''.VRSC''"]) simp
  have s: "sliceEnd (p @ ''.VRSC@'') 1 = p @ ''.VRSC''"
    by (simp add: sliceEnd_def)
  have e2: "endsWith (p @ ''.VRSC'') ''.VRSC''"
    unfolding endsWith_iff by blast
  show ?thesis
    unfolding stripSuffixes_def Let_def using e e2 by (simp only: s if_True sliceEnd_append [of "''.VRSC''" 5 p, simplified])
qed

lemma stripSuffixes_at:
  assumes "\<not> (\<exists>q. p = q @ ''.VRSC'')"
  shows "stripSuffixes (p @ ''@'') = p"
proof -
  have e: "endsWith (p @ ''@'') ''@''"
    unfolding endsWith_iff by blast
  have s: "sliceEnd (p @ ''@'') 1 = p"
    by (simp add: sliceEnd_def)
  from assms have e2: "\<not> endsWith p ''.VRSC''"
    unfolding endsWith_iff .
  show ?thesis
    unfolding stripSuffixes_def Let_def using e e2 by (simp only: s if_True if_False)
qed

lemma stripSuffixes_vrsc: "stripSuffixes (p @ ''.VRSC'') = p"
proof -
  have e: "\<not> endsWith (p @ ''.VRSC'') ''@''"
    unfolding endsWith_iff by auto
  have e2: "endsWith (p @ ''.VRSC'') ''.VRSC''"
    unfolding endsWith_iff by blast
  have s: "sliceEnd (p @ ''.VRSC'') 5 = p"
    by (simp add: sliceEnd_def)
  show ?thesis
    unfolding stripSuffixes_def Let_def using e e2 by (simp only: s if_True if_False)
qed

lemma stripSuffixes_none:
  assumes "\<not> (\<exists>q. s = q @ ''@'')" and "\<not> (\<exists>q. s = q @ ''.VRSC'')"
  shows "stripSuffixes s = s"
  using assms unfolding stripSuffixes_def Let_def endsWith_iff by simp

section \<open>The resolver\<close>

lemma resolve_miss_ok:
  assumes "\<not> truthy (identityNameCache st a)"
    and "gi (length (getIdentityLog st)) a = RpcResult reply"
  shows "getIdentityFriendlyName gi a st =
           ((None, deriveName a reply),
            st\<lparr>getIdentityLog := getIdentityLog st @ [a],
               identityNameCache := (identityNameCache st)(a \<mapsto> deriveName a reply)\<rparr>)"
  using assms by (simp add: getIdentityFriendlyName_def Let_def)

lemma resolve_miss_error:
  assumes "\<not> truthy (identityNameCache st a)"
    and "gi (length (getIdentityLog st)) a = RpcError msg"
  shows "getIdentityFriendlyName gi a st =
           ((None, a), st\<lparr>getIdentityLog := getIdentityLog st @ [a]\<rparr>)"
  using assms by (simp add: getIdentityFriendlyName_def Let_def)

lemma resolve_hit:
  assumes "identityNameCache st a = Some n" and "n \<noteq> []"
  shows "getIdentityFriendlyName gi a st = ((None, n), st)"
  using assms by (simp add: getIdentityFriendlyName_def)

lemma cached_name_is_reused:
  assumes "\<not> truthy (identityNameCache st a)"
    and "gi (length (getIdentityLog st)) a = RpcResult reply"
    and "deriveName a reply \<noteq> []"
  shows "getIdentityFriendlyName gi' a (snd (getIdentityFriendlyName gi a st))
           = ((None, deriveName a reply), snd (getIdentityFriendlyName gi a st))"
  using resolve_miss_ok [of st a gi reply] assms
  by (simp add: resolve_hit)

text \<open>
  Claim C3. A field counts as present when the test of lines 49 and 59 succeeds on it: it
  is defined and not the empty string. When a lookup succeeds and
  \<^verbatim>\<open>identityinfo.friendlyname\<close> is present, the resolver returns it without one trailing
  \<^verbatim>\<open>@\<close> and then without one trailing \<^verbatim>\<open>.VRSC\<close>: \<open>p\<close> for \<open>p.VRSC@\<close>, for \<open>p@\<close>
  (where \<open>p\<close> does not end in \<^verbatim>\<open>.VRSC\<close>) and for \<open>p.VRSC\<close>, and the name itself when it
  has neither suffix. When the friendly name is not present and \<^verbatim>\<open>identity.name\<close> is, that
  name is returned as it is; when neither is present the address is returned.
\<close>

theorem friendly_name_derivation:
  assumes miss: "\<not> truthy (identityNameCache st a)"
    and ok: "gi (length (getIdentityLog st)) a = RpcResult reply"
  shows "(\<forall>fn. replyFriendlyname reply = Some fn \<and> fn \<noteq> [] \<longrightarrow>
            (\<forall>p. fn = p @ ''.VRSC@'' \<longrightarrow> snd (fst (getIdentityFriendlyName gi a st)) = p) \<and>
            (\<forall>p. fn = p @ ''@'' \<and> \<not> (\<exists>q. p = q @ ''.VRSC'') \<longrightarrow>
                   snd (fst (getIdentityFriendlyName gi a st)) = p) \<and>
            (\<forall>p. fn = p @ ''.VRSC'' \<longrightarrow> snd (fst (getIdentityFriendlyName gi a st)) = p) \<and>
            (\<not> (\<exists>q. fn = q @ ''@'') \<and> \<not> (\<exists>q. fn = q @ ''.VRSC'') \<longrightarrow>
                   snd (fst (getIdentityFriendlyName gi a st)) = fn))
       \<and> (\<forall>nm. \<not> truthy (replyFriendlyname reply) \<and> replyName reply = Some nm \<and> nm \<noteq> [] \<longrightarrow>
            snd (fst (getIdentityFriendlyName gi a st)) = nm)
       \<and> (\<not> truthy (replyFriendlyname reply) \<and> \<not> truthy (replyName reply) \<longrightarrow>
            snd (fst (getIdentityFriendlyName gi a st)) = a)"
proof -
  have r: "snd (fst (getIdentityFriendlyName gi a st)) = deriveName a reply"
    using resolve_miss_ok [of st a gi reply] miss ok by simp
  have 1: "replyFriendlyname reply = Some fn \<Longrightarrow> fn \<noteq> [] \<Longrightarrow> deriveName a reply = stripSuffixes fn" for fn
    by (simp add: deriveName_def)
  show ?thesis
    unfolding r
    by (auto simp: 1 stripSuffixes_at_vrsc stripSuffixes_at stripSuffixes_vrsc stripSuffixes_none
          simp del: append.simps) (auto simp: deriveName_def)
qed

theorem friendly_name_derivation_witness:
  "snd (fst (getIdentityFriendlyName
       (\<lambda>n a. RpcResult (Some \<lparr>identityinfo = Some \<lparr>friendlyname = Some ''bob.VRSC@''\<rparr>,
                                identity = None\<rparr>)) ''iBob'' initial)) = ''bob''
   \<and> snd (fst (getIdentityFriendlyName
       (\<lambda>n a. RpcResult (Some \<lparr>identityinfo = Some \<lparr>friendlyname = Some ''bob@''\<rparr>,
                                identity = None\<rparr>)) ''iBob'' initial)) = ''bob''
   \<and> snd (fst (getIdentityFriendlyName
       (\<lambda>n a. RpcResult (Some \<lparr>identityinfo = Some \<lparr>friendlyname = Some ''bob.VRSC''\<rparr>,
                                identity = None\<rparr>)) ''iBob'' initial)) = ''bob''
   \<and> snd (fst (getIdentityFriendlyName
       (\<lambda>n a. RpcResult (Some \<lparr>identityinfo = None,
                                identity = Some \<lparr>identity_name = Some ''bob.VRSC@''\<rparr>\<rparr>))
       ''iBob'' initial)) = ''bob.VRSC@''
   \<and> snd (fst (getIdentityFriendlyName
       (\<lambda>n a. RpcResult (Some \<lparr>identityinfo = None, identity = None\<rparr>)) ''iBob'' initial))
       = ''iBob''"
proof -
  have miss: "\<not> truthy (identityNameCache initial ''iBob'')"
    by (simp add: initial_def)
  have no: "\<not> (\<exists>q. ''bob'' = q @ ''.VRSC'')"
  proof
    assume "\<exists>q. ''bob'' = q @ ''.VRSC''"
    then obtain q where "''bob'' = q @ ''.VRSC''" ..
    then have "length ''bob'' = length (q @ ''.VRSC'')" by (rule arg_cong)
    then show False by simp
  qed
  note w = friendly_name_derivation [where st = initial and a = "''iBob''", OF miss]
  let ?g1 = "\<lambda>(n::nat) (a::string). RpcResult (Some \<lparr>identityinfo = Some \<lparr>friendlyname = Some ''bob.VRSC@''\<rparr>,
                                identity = None\<rparr>)"
  let ?g2 = "\<lambda>(n::nat) (a::string). RpcResult (Some \<lparr>identityinfo = Some \<lparr>friendlyname = Some ''bob@''\<rparr>,
                                identity = None\<rparr>)"
  let ?g3 = "\<lambda>(n::nat) (a::string). RpcResult (Some \<lparr>identityinfo = Some \<lparr>friendlyname = Some ''bob.VRSC''\<rparr>,
                                identity = None\<rparr>)"
  let ?g4 = "\<lambda>(n::nat) (a::string). RpcResult (Some \<lparr>identityinfo = None,
                                identity = Some \<lparr>identity_name = Some ''bob.VRSC@''\<rparr>\<rparr>)"
  let ?g5 = "\<lambda>(n::nat) (a::string). RpcResult (Some \<lparr>identityinfo = None, identity = None\<rparr>)"
  have f1: "replyFriendlyname (Some \<lparr>identityinfo = Some \<lparr>friendlyname = Some s\<rparr>, identity = None\<rparr>) = Some s" for s
    by (simp add: replyFriendlyname_def)
  from w [where gi = ?g1, OF refl]
  have "\<forall>p. ''bob.VRSC@'' = p @ ''.VRSC@'' \<longrightarrow> snd (fst (getIdentityFriendlyName ?g1 ''iBob'' initial)) = p"
    unfolding f1 by blast
  then have "''bob.VRSC@'' = ''bob'' @ ''.VRSC@'' \<longrightarrow> snd (fst (getIdentityFriendlyName ?g1 ''iBob'' initial)) = ''bob''"
    by (rule spec)
  then have 1: "snd (fst (getIdentityFriendlyName ?g1 ''iBob'' initial)) = ''bob''" by simp
  from w [where gi = ?g2, OF refl]
  have "\<forall>p. ''bob@'' = p @ ''@'' \<and> \<not> (\<exists>q. p = q @ ''.VRSC'') \<longrightarrow>
            snd (fst (getIdentityFriendlyName ?g2 ''iBob'' initial)) = p"
    unfolding f1 by blast
  then have "''bob@'' = ''bob'' @ ''@'' \<and> \<not> (\<exists>q. ''bob'' = q @ ''.VRSC'') \<longrightarrow>
            snd (fst (getIdentityFriendlyName ?g2 ''iBob'' initial)) = ''bob''"
    by (rule spec)
  with no have 2: "snd (fst (getIdentityFriendlyName ?g2 ''iBob'' initial)) = ''bob''" by simp
  from w [where gi = ?g3, OF refl]
  have "\<forall>p. ''bob.VRSC'' = p @ ''.VRSC'' \<longrightarrow> snd (fst (getIdentityFriendlyName ?g3 ''iBob'' initial)) = p"
    unfolding f1 by blast
  then have "''bob.VRSC'' = ''bob'' @ ''.VRSC'' \<longrightarrow> snd (fst (getIdentityFriendlyName ?g3 ''iBob'' initial)) = ''bob''"
    by (rule spec)
  then have 3: "snd (fst (getIdentityFriendlyName ?g3 ''iBob'' initial)) = ''bob''" by simp
  have 4: "snd (fst (getIdentityFriendlyName ?g4 ''iBob'' initial)) = ''bob.VRSC@''"
    using w [where gi = ?g4, OF refl]
    by (simp add: replyFriendlyname_def replyName_def)
  have 5: "snd (fst (getIdentityFriendlyName ?g5 ''iBob'' initial)) = ''iBob''"
    using w [where gi = ?g5, OF refl]
    by (simp add: replyFriendlyname_def replyName_def)
  from 1 2 3 4 5 show ?thesis by (intro conjI)
qed

text \<open>
  Claim C4. When the resolver looks an address up (no usable cache entry) and the lookup
  fails, it passes no error and the address itself to its callback, leaves the cache as
  it was and has sent one request; resolving the same address again sends a second
  request, whatever the service answers then. When the lookup succeeds, it passes no
  error and the derived name, and the cache holds the derived name at the address.
\<close>

theorem lookup_failure_not_cached:
  assumes miss: "\<not> truthy (identityNameCache st a)"
  shows "(\<forall>msg. gi (length (getIdentityLog st)) a = RpcError msg \<longrightarrow>
            fst (getIdentityFriendlyName gi a st) = (None, a)
            \<and> identityNameCache (snd (getIdentityFriendlyName gi a st)) = identityNameCache st
            \<and> getIdentityLog (snd (getIdentityFriendlyName gi a st)) = getIdentityLog st @ [a]
            \<and> getIdentityLog (snd (getIdentityFriendlyName gi' a (snd (getIdentityFriendlyName gi a st))))
                = getIdentityLog st @ [a, a])
       \<and> (\<forall>reply. gi (length (getIdentityLog st)) a = RpcResult reply \<longrightarrow>
            fst (getIdentityFriendlyName gi a st) = (None, deriveName a reply)
            \<and> identityNameCache (snd (getIdentityFriendlyName gi a st)) a = Some (deriveName a reply))"
proof (intro conjI allI impI)
  fix msg assume err: "gi (length (getIdentityLog st)) a = RpcError msg"
  have r: "getIdentityFriendlyName gi a st = ((None, a), st\<lparr>getIdentityLog := getIdentityLog st @ [a]\<rparr>)"
    using resolve_miss_error [of st a gi msg] miss err by simp
  show "fst (getIdentityFriendlyName gi a st) = (None, a)" by (simp add: r)
  show "identityNameCache (snd (getIdentityFriendlyName gi a st)) = identityNameCache st"
    by (simp add: r)
  show "getIdentityLog (snd (getIdentityFriendlyName gi a st)) = getIdentityLog st @ [a]"
    by (simp add: r)
  have miss': "\<not> truthy (identityNameCache (st\<lparr>getIdentityLog := getIdentityLog st @ [a]\<rparr>) a)"
    using miss by simp
  show "getIdentityLog (snd (getIdentityFriendlyName gi' a (snd (getIdentityFriendlyName gi a st))))
          = getIdentityLog st @ [a, a]"
    unfolding r using miss'
    by (simp add: getIdentityFriendlyName_def Let_def split: rpc.splits)
next
  fix reply assume ok: "gi (length (getIdentityLog st)) a = RpcResult reply"
  have r: "getIdentityFriendlyName gi a st =
           ((None, deriveName a reply),
            st\<lparr>getIdentityLog := getIdentityLog st @ [a],
               identityNameCache := (identityNameCache st)(a \<mapsto> deriveName a reply)\<rparr>)"
    using resolve_miss_ok [of st a gi reply] miss ok by simp
  show "fst (getIdentityFriendlyName gi a st) = (None, deriveName a reply)" by (simp add: r)
  show "identityNameCache (snd (getIdentityFriendlyName gi a st)) a = Some (deriveName a reply)"
    by (simp add: r)
qed

theorem lookup_failure_not_cached_witness:
  "fst (getIdentityFriendlyName (\<lambda>n a. RpcError ''Identity not found'') ''iBob'' initial)
     = (None, ''iBob'')
   \<and> identityNameCache
         (snd (getIdentityFriendlyName (\<lambda>n a. RpcError ''Identity not found'') ''iBob'' initial))
         ''iBob'' = None
   \<and> getIdentityLog
         (snd (getIdentityFriendlyName (\<lambda>n a. RpcError ''Identity not found'') ''iBob''
            (snd (getIdentityFriendlyName (\<lambda>n a. RpcError ''Identity not found'') ''iBob''
               initial))))
       = [''iBob'', ''iBob'']
   \<and> identityNameCache
         (snd (getIdentityFriendlyName
            (\<lambda>n a. RpcResult (Some \<lparr>identityinfo = Some \<lparr>friendlyname = Some ''bob@''\<rparr>,
                                     identity = None\<rparr>)) ''iBob'' initial))
         ''iBob'' = Some ''bob''"
proof -
  have miss: "\<not> truthy (identityNameCache initial ''iBob'')"
    by (simp add: initial_def)
  let ?g = "\<lambda>(n::nat) (a::string). (RpcError ''Identity not found'' :: identity_reply option rpc)"
  let ?h = "\<lambda>(n::nat) (a::string).
              RpcResult (Some \<lparr>identityinfo = Some \<lparr>friendlyname = Some ''bob@''\<rparr>,
                               identity = None\<rparr>)"
  have d: "deriveName ''iBob''
             (Some \<lparr>identityinfo = Some \<lparr>friendlyname = Some ''bob@''\<rparr>, identity = None\<rparr>)
           = ''bob''"
    by (simp add: deriveName_def replyFriendlyname_def stripSuffixes_def endsWith_def
          sliceEnd_def)
  from lookup_failure_not_cached [OF miss, where gi = ?g and gi' = ?g]
  have 1: "fst (getIdentityFriendlyName ?g ''iBob'' initial) = (None, ''iBob'')"
    and 2: "identityNameCache (snd (getIdentityFriendlyName ?g ''iBob'' initial))
              = identityNameCache initial"
    and 3: "getIdentityLog (snd (getIdentityFriendlyName ?g ''iBob''
              (snd (getIdentityFriendlyName ?g ''iBob'' initial))))
              = getIdentityLog initial @ [''iBob'', ''iBob'']"
    by simp_all
  from lookup_failure_not_cached [OF miss, where gi = ?h]
  have 4: "identityNameCache (snd (getIdentityFriendlyName ?h ''iBob'' initial)) ''iBob''
             = Some ''bob''"
    by (simp add: d)
  from 1 2 3 4 show ?thesis by (simp add: initial_def)
qed

text \<open>
  Claim C1. The cache test of line 35 fails on an entry that holds the empty string. A
  lookup that answers the friendly name \<^verbatim>\<open>@\<close> succeeds and derives the empty name, which
  line 65 stores; the second resolution of the address then sends a second request, and
  returns what that request answers (here \<^verbatim>\<open>bob\<close>), not the name returned first. Where
  the derived name is not empty, the second resolution sends nothing and returns the same
  name (lemma \<open>cached_name_is_reused\<close>).
\<close>

theorem empty_name_is_looked_up_again:
  "fst (getIdentityFriendlyName
          (\<lambda>n a. RpcResult (Some \<lparr>identityinfo =
                      Some \<lparr>friendlyname = Some (if n = 0 then ''@'' else ''bob@'')\<rparr>,
                    identity = None\<rparr>)) ''iBob'' initial) = (None, [])
   \<and> identityNameCache (snd (getIdentityFriendlyName
          (\<lambda>n a. RpcResult (Some \<lparr>identityinfo =
                      Some \<lparr>friendlyname = Some (if n = 0 then ''@'' else ''bob@'')\<rparr>,
                    identity = None\<rparr>)) ''iBob'' initial)) ''iBob'' = Some []
   \<and> getIdentityFriendlyName
          (\<lambda>n a. RpcResult (Some \<lparr>identityinfo =
                      Some \<lparr>friendlyname = Some (if n = 0 then ''@'' else ''bob@'')\<rparr>,
                    identity = None\<rparr>)) ''iBob''
          (snd (getIdentityFriendlyName
             (\<lambda>n a. RpcResult (Some \<lparr>identityinfo =
                         Some \<lparr>friendlyname = Some (if n = 0 then ''@'' else ''bob@'')\<rparr>,
                       identity = None\<rparr>)) ''iBob'' initial))
       = ((None, ''bob''),
          \<lparr>identityNameCache = [''iBob'' \<mapsto> ''bob''],
           getIdentityLog = [''iBob'', ''iBob''], decodeScriptLog = []\<rparr>)"
  by (simp add: getIdentityFriendlyName_def initial_def deriveName_def replyFriendlyname_def
        stripSuffixes_def endsWith_def sliceEnd_def Let_def)

section \<open>The transformed transaction\<close>

lemma transformTransaction_Inr:
  assumes "transformTransaction e opts tx st = Inr (t, st')"
  shows "\<exists>vin vout. transformVin opts tx = Inr vin \<and> transformVout e opts tx = Inr vout
           \<and> t = continueTransform e opts tx
                   (if tx_height tx \<ge> 0 then bitcoind_height e - tx_height tx + 1 else 0)
                   vin (fst (enrich e vout st))
           \<and> st' = snd (enrich e vout st)"
  using assms by (auto simp: transformTransaction_def Let_def split: sum.splits)

lemma transformTransaction_completes:
  assumes "transformVin opts tx = Inr vin" and "transformVout e opts tx = Inr vout"
  shows "transformTransaction e opts tx st =
           Inr (continueTransform e opts tx
                  (if tx_height tx \<ge> 0 then bitcoind_height e - tx_height tx + 1 else 0)
                  vin (fst (enrich e vout st)),
                snd (enrich e vout st))"
  using assms by (simp add: transformTransaction_def Let_def)

lemma continueTransform_simps:
  "t_confirmations (continueTransform e opts tx c vin vout) = c"
  "t_blocktime (continueTransform e opts tx c vin vout) = None \<longleftrightarrow> c = 0"
  "t_vin (continueTransform e opts tx c vin vout) = vin"
  "t_vout (continueTransform e opts tx c vin vout) = vout"
  by (simp_all add: continueTransform_def Let_def)

text \<open>
  Claim C7. In the object a transform passes to its callback, \<^verbatim>\<open>confirmations\<close> is the
  chain height minus the height of the transaction plus one when that height is not
  negative; when it is negative, \<^verbatim>\<open>confirmations\<close> is 0 and there is no \<^verbatim>\<open>blocktime\<close>.
\<close>

theorem confirmations_of_height:
  assumes "transformTransaction e opts tx st = Inr (t, st')"
  shows "(tx_height tx \<ge> 0 \<longrightarrow> t_confirmations t = bitcoind_height e - tx_height tx + 1)
       \<and> (tx_height tx < 0 \<longrightarrow> t_confirmations t = 0 \<and> t_blocktime t = None)"
proof -
  from transformTransaction_Inr [OF assms] obtain vin vout where
    t: "t = continueTransform e opts tx
              (if tx_height tx \<ge> 0 then bitcoind_height e - tx_height tx + 1 else 0)
              vin (fst (enrich e vout st))"
    by blast
  show ?thesis unfolding t by (simp add: continueTransform_simps)
qed

theorem confirmations_of_height_witness:
  "(\<exists>t st'. transformTransaction exampleEnv exampleOptions exampleTx initial = Inr (t, st')
       \<and> t_confirmations t = 6)
   \<and> (\<exists>t st'. transformTransaction exampleEnv exampleOptions
                 (exampleTx\<lparr>tx_height := - 1, tx_blockHash := None, tx_blockTimestamp := None\<rparr>)
                 initial = Inr (t, st')
       \<and> t_confirmations t = 0 \<and> t_blocktime t = None)"
proof
  have "\<exists>r. transformTransaction exampleEnv exampleOptions exampleTx initial = Inr r"
    by (simp add: transformTransaction_def transformVin_def transformVout_def exampleTx_def
          Let_def enumerate_eq_zip)
  then obtain t st' where
    run: "transformTransaction exampleEnv exampleOptions exampleTx initial = Inr (t, st')"
    by force
  from confirmations_of_height [OF run] have "t_confirmations t = 6"
    by (simp add: exampleEnv_def exampleTx_def)
  with run show "\<exists>t st'. transformTransaction exampleEnv exampleOptions exampleTx initial
      = Inr (t, st') \<and> t_confirmations t = 6"
    by blast
next
  let ?tx = "exampleTx\<lparr>tx_height := - 1, tx_blockHash := None, tx_blockTimestamp := None\<rparr>"
  have "\<exists>r. transformTransaction exampleEnv exampleOptions ?tx initial = Inr r"
    by (simp add: transformTransaction_def transformVin_def transformVout_def exampleTx_def
          Let_def enumerate_eq_zip)
  then obtain t st' where
    run: "transformTransaction exampleEnv exampleOptions ?tx initial = Inr (t, st')"
    by force
  from confirmations_of_height [OF run] have "t_confirmations t = 0 \<and> t_blocktime t = None"
    by (simp add: exampleTx_def)
  with run show "\<exists>t st'. transformTransaction exampleEnv exampleOptions ?tx initial
      = Inr (t, st') \<and> t_confirmations t = 0 \<and> t_blocktime t = None"
    by blast
qed

text \<open>
  Claim C8. For a coinbase transaction with a first input, whatever inputs follow it, the
  \<^verbatim>\<open>vin\<close> of the transformed object is the single entry made of that input's script and
  sequence number, with \<^verbatim>\<open>n\<close> 0; no entry is made by \<^verbatim>\<open>transformInput\<close>.
\<close>

theorem coinbase_single_input:
  assumes "tx_coinbase tx" and "tx_inputs tx = input0 # rest"
    and "transformTransaction e opts tx st = Inr (t, st')"
  shows "t_vin t = [CoinbaseIn \<lparr>cb_coinbase = i_script input0, cb_sequence = i_sequence input0,
                                cb_n = 0\<rparr>]"
proof -
  from transformTransaction_Inr [OF assms(3)] obtain vin vout where
    v: "transformVin opts tx = Inr vin" and
    t: "t = continueTransform e opts tx
              (if tx_height tx \<ge> 0 then bitcoind_height e - tx_height tx + 1 else 0)
              vin (fst (enrich e vout st))"
    by blast
  from v assms(1,2) have "vin = [CoinbaseIn \<lparr>cb_coinbase = i_script input0,
      cb_sequence = i_sequence input0, cb_n = 0\<rparr>]"
    by (simp add: transformVin_def)
  then show ?thesis unfolding t by (simp add: continueTransform_simps)
qed

lemma coinbase_without_input_throws:
  assumes "tx_coinbase tx" and "tx_inputs tx = []"
  shows "transformTransaction e opts tx st = Inl TypeError"
  using assms by (simp add: transformTransaction_def transformVin_def Let_def)

theorem coinbase_single_input_witness:
  "\<exists>t st'. transformTransaction exampleEnv exampleOptions
              (exampleTx\<lparr>tx_coinbase := True,
                         tx_inputs := [exampleInput, exampleInput\<lparr>i_script := ''ffff''\<rparr>]\<rparr>)
              initial = Inr (t, st')
     \<and> t_vin t = [CoinbaseIn \<lparr>cb_coinbase = ''04ffff'', cb_sequence = 4294967295, cb_n = 0\<rparr>]"
proof -
  let ?tx = "exampleTx\<lparr>tx_coinbase := True,
                       tx_inputs := [exampleInput, exampleInput\<lparr>i_script := ''ffff''\<rparr>]\<rparr>"
  have "\<exists>r. transformTransaction exampleEnv exampleOptions ?tx initial = Inr r"
    by (simp add: transformTransaction_def transformVin_def transformVout_def exampleTx_def
          Let_def enumerate_eq_zip)
  then obtain t st' where
    run: "transformTransaction exampleEnv exampleOptions ?tx initial = Inr (t, st')"
    by force
  have cb: "tx_coinbase ?tx" by simp
  have ins: "tx_inputs ?tx = exampleInput # [exampleInput\<lparr>i_script := ''ffff''\<rparr>]" by simp
  from coinbase_single_input [OF cb ins run]
  have "t_vin t = [CoinbaseIn \<lparr>cb_coinbase = ''04ffff'', cb_sequence = 4294967295, cb_n = 0\<rparr>]"
    by (simp add: exampleInput_def)
  with run show ?thesis by blast
qed

section \<open>The friendly-keyed mappings\<close>

















section \<open>The addresses to resolve\<close>

lemma collect_extends: "\<exists>new. collect acc keys = acc @ new"
  unfolding collect_def
proof (induction keys arbitrary: acc)
  case Nil
  show ?case by simp
next
  case (Cons k keys)
  show ?case
  proof (cases "startsWith k ''i'' \<and> k \<notin> set acc")
    case True
    from Cons.IH [of "acc @ [k]"] obtain new where
      "foldl (\<lambda>acc iAddress. if startsWith iAddress ''i'' \<and> iAddress \<notin> set acc
                              then acc @ [iAddress] else acc) (acc @ [k]) keys
         = (acc @ [k]) @ new" by blast
    with True show ?thesis by simp
  next
    case False
    with Cons.IH [of acc] show ?thesis by auto
  qed
qed



lemma collect_length: "length acc \<le> length (collect acc keys)"
  using collect_extends [of acc keys] by auto

lemma scanStep_eq:
  "scanStep acc p =
     (collect (fst acc) (valueinKeys (snd p)),
      if vout_needsScriptDecode (snd p) then snd acc @ [fst p] else snd acc)"
  by (simp add: scanStep_def valueinKeys_def Let_def collect_def split: option.splits)



lemma scan_fold_snd:
  "snd (foldl scanStep acc ps)
     = snd acc @ map fst (filter (\<lambda>p. vout_needsScriptDecode (snd p)) ps)"
  by (induction ps arbitrary: acc) (auto simp: scanStep_eq)



lemma scriptsToDecodeIndices_distinct: "distinct (scriptsToDecodeIndices vout)"
proof -
  have "distinct (map fst (enumerate 0 vout))" by simp
  then have "distinct (map fst (filter (\<lambda>p. vout_needsScriptDecode (snd p)) (enumerate 0 vout)))"
    by (rule distinct_map_filter)
  then show ?thesis
    by (simp add: scriptsToDecodeIndices_def scan_def scan_fold_snd)
qed

lemma scriptsToDecodeIndices_set:
  "set (scriptsToDecodeIndices vout) = {i. i < length vout \<and> vout_needsScriptDecode (vout ! i)}"
proof (rule set_eqI)
  fix i
  have "i \<in> set (scriptsToDecodeIndices vout)
          \<longleftrightarrow> (\<exists>p \<in> set (enumerate 0 vout). vout_needsScriptDecode (snd p) \<and> fst p = i)"
    by (auto simp: scriptsToDecodeIndices_def scan_def scan_fold_snd)
  also have "\<dots> \<longleftrightarrow> i < length vout \<and> vout_needsScriptDecode (vout ! i)"
  proof
    assume "\<exists>p \<in> set (enumerate 0 vout). vout_needsScriptDecode (snd p) \<and> fst p = i"
    then show "i < length vout \<and> vout_needsScriptDecode (vout ! i)"
      by (auto simp: in_set_enumerate_eq)
  next
    assume "i < length vout \<and> vout_needsScriptDecode (vout ! i)"
    then have "(i, vout ! i) \<in> set (enumerate 0 vout)" "vout_needsScriptDecode (snd (i, vout ! i))"
      by (simp_all add: in_set_enumerate_eq)
    then show "\<exists>p \<in> set (enumerate 0 vout). vout_needsScriptDecode (snd p) \<and> fst p = i"
      by (intro bexI [of _ "(i, vout ! i)"]) simp_all
  qed
  finally show "i \<in> set (scriptsToDecodeIndices vout)
      \<longleftrightarrow> i \<in> {i. i < length vout \<and> vout_needsScriptDecode (vout ! i)}"
    by simp
qed

section \<open>Decoding\<close>

lemma decodeScripts_idx: "map item_idx (fst (decodeScripts e vs idxs st)) = idxs"
  by (induction idxs arbitrary: st) (simp_all add: Let_def)

lemma decodeScripts_length: "length (fst (decodeScripts e vs idxs st)) = length idxs"
  using decodeScripts_idx [of e vs idxs st] by (metis length_map)

lemma decodeScripts_nth:
  "k < length idxs \<Longrightarrow>
   fst (decodeScripts e vs idxs st) ! k =
     \<lparr>item_idx = idxs ! k,
      item_decoded =
        (case decodeScript e (length (decodeScriptLog st) + k) (vout_scriptHex (vs ! (idxs ! k))) of
           RpcError msg \<Rightarrow> None | RpcResult r \<Rightarrow> r),
      item_type = vout_scriptDecodeType (vs ! (idxs ! k))\<rparr>"
proof (induction idxs arbitrary: st k)
  case Nil
  then show ?case by simp
next
  case (Cons i idxs)
  show ?case
  proof (cases k)
    case 0
    then show ?thesis by (simp add: Let_def)
  next
    case (Suc k')
    with Cons.prems have "k' < length idxs" by simp
    from Cons.IH [OF this, of "st\<lparr>decodeScriptLog := decodeScriptLog st @ [vout_scriptHex (vs ! i)]\<rparr>"]
    show ?thesis using Suc by (simp add: Let_def)
  qed
qed

lemma decodeScripts_state:
  "snd (decodeScripts e vs idxs st) =
     st\<lparr>decodeScriptLog := decodeScriptLog st @ map (\<lambda>i. vout_scriptHex (vs ! i)) idxs\<rparr>"
  by (induction idxs arbitrary: st) (simp_all add: Let_def)

section \<open>The decoded scripts\<close>

lemma processItem_length: "length (fst (processItem acc item)) = length (fst acc)"
  by (simp add: processItem_def Let_def split: option.splits decode_type.splits)

lemma processItem_other:
  "j \<noteq> item_idx item \<Longrightarrow> fst (processItem acc item) ! j = fst acc ! j"
  by (simp add: processItem_def Let_def split: option.splits decode_type.splits)

lemma processItem_None: "item_decoded item = None \<Longrightarrow> processItem acc item = acc"
  by (simp add: processItem_def Let_def)



lemma map_update_same: "(map f xs)[i := f (xs ! i)] = map f xs"
  by (metis list_update_id map_update)


lemma fold_processItem_length:
  "length (fst (foldl processItem acc items)) = length (fst acc)"
  by (induction items arbitrary: acc) (simp_all add: processItem_length)




lemma fold_processItem_untouched:
  "\<forall>item \<in> set items. item_idx item = j \<longrightarrow> item_decoded item = None \<Longrightarrow>
   fst (foldl processItem acc items) ! j = fst acc ! j"
proof (induction items arbitrary: acc)
  case Nil
  show ?case by simp
next
  case (Cons item items)
  have "fst (processItem acc item) ! j = fst acc ! j"
  proof (cases "item_idx item = j")
    case True
    with Cons.prems have "item_decoded item = None" by simp
    then show ?thesis by (simp add: processItem_None)
  next
    case False
    then show ?thesis by (simp add: processItem_other)
  qed
  moreover have "fst (foldl processItem (processItem acc item) items) ! j
                   = fst (processItem acc item) ! j"
    using Cons.prems by (intro Cons.IH) simp
  ultimately show ?case by simp
qed




section \<open>The names\<close>

lemma resolveNames_keys: "map fst (fst (resolveNames gi addrs st)) = addrs"
  by (induction addrs arbitrary: st) (simp_all add: Let_def)

lemma resolveNames_length: "length (fst (resolveNames gi addrs st)) = length addrs"
  using resolveNames_keys [of gi addrs st] by (metis length_map)






section \<open>The outputs before the enrichment\<close>

lemma traverse_Inr:
  "traverse f xs = Inr ys \<Longrightarrow>
   length ys = length xs \<and> (\<forall>i < length xs. f (xs ! i) = Inr (ys ! i))"
proof (induction xs arbitrary: ys)
  case Nil
  then show ?case by simp
next
  case (Cons x xs)
  from Cons.prems obtain y ys' where
    y: "f x = Inr y" and ys': "traverse f xs = Inr ys'" and ys: "ys = y # ys'"
    by (auto split: sum.splits)
  from Cons.IH [OF ys'] y ys show ?case
    by (auto simp: nth_Cons split: nat.splits)
qed

lemma transformVout_nth:
  assumes "transformVout e opts tx = Inr vout"
  shows "length vout = length (tx_outputs tx)"
    and "i < length (tx_outputs tx) \<Longrightarrow> transformOutput e opts (tx_outputs tx ! i) i = Inr (vout ! i)"
  using traverse_Inr [OF assms [unfolded transformVout_def]]
  by (simp_all add: nth_enumerate_eq)

lemma asmAndSpent_fields:
  "vout_crosschainimport (asmAndSpent opts out t) = vout_crosschainimport t"
  "vout_feepool (asmAndSpent opts out t) = vout_feepool t"
  "vout_acceptednotarization (asmAndSpent opts out t) = vout_acceptednotarization t"
  "vout_p2shAddress (asmAndSpent opts out t) = vout_p2shAddress t"
  by (simp_all add: asmAndSpent_def Let_def)

lemma reserveTransferFields_fields:
  "vout_crosschainimport (reserveTransferFields r t) = vout_crosschainimport t"
  "vout_feepool (reserveTransferFields r t) = vout_feepool t"
  "vout_acceptednotarization (reserveTransferFields r t) = vout_acceptednotarization t"
  "vout_p2shAddress (reserveTransferFields r t) = vout_p2shAddress t"
  by (simp_all add: reserveTransferFields_def Let_def)

lemma commitments_fields:
  "vout_crosschainimport (commitments out t) =
     (case o_crosschainimport out of Some c \<Rightarrow> Some c | None \<Rightarrow> vout_crosschainimport t)"
  "vout_feepool (commitments out t) = vout_feepool t"
  "vout_acceptednotarization (commitments out t) = vout_acceptednotarization t"
  "vout_p2shAddress (commitments out t) = vout_p2shAddress t"
  by (simp_all add: commitments_def Let_def reserveTransferFields_fields
        split: option.splits json.splits)

lemma annotateProtocol_fields:
  "vout_crosschainimport (annotateProtocol e out t) = vout_crosschainimport t"
  "vout_feepool (annotateProtocol e out t) = vout_feepool t"
  "vout_acceptednotarization (annotateProtocol e out t) = vout_acceptednotarization t"
  "vout_p2shAddress (annotateProtocol e out t) = vout_p2shAddress t"
  by (simp_all add: annotateProtocol_def Let_def split: option.splits)

lemma flagOpReturn_fields:
  "vout_crosschainimport (flagOpReturn out t) = vout_crosschainimport t"
  "vout_feepool (flagOpReturn out t) = vout_feepool t"
  "vout_acceptednotarization (flagOpReturn out t) = vout_acceptednotarization t"
  "vout_p2shAddress (flagOpReturn out t) = vout_p2shAddress t"
  by (simp_all add: flagOpReturn_def)

lemma copyFields_fields:
  "vout_crosschainimport (copyFields out t) = vout_crosschainimport t"
  "vout_feepool (copyFields out t) = vout_feepool t"
  "vout_acceptednotarization (copyFields out t) = vout_acceptednotarization t"
  "vout_p2shAddress (copyFields out t) = vout_p2shAddress t"
  by (simp_all add: copyFields_def)

lemma transformOutput_fields:
  assumes "transformOutput e opts out i = Inr v"
  shows "vout_crosschainimport v = o_crosschainimport out"
    and "vout_feepool v = None"
    and "vout_acceptednotarization v = None"
    and "vout_p2shAddress v = None"
  using assms
  by (auto simp: transformOutput_def Let_def asmAndSpent_fields commitments_fields
        annotateProtocol_fields flagOpReturn_fields copyFields_fields baseOutput_def
        split: option.splits if_splits)

section \<open>The stages\<close>



lemma expanded_length: "length (fst (expanded e vout st)) = length vout"
  by (simp add: expanded_def fold_processItem_length)



lemma enrich_nth:
  "i < length vout \<Longrightarrow>
   fst (enrich e vout st) ! i = applyNames (allNames e vout st) (fst (expanded e vout st) ! i)"
  by (simp add: enrich_def expanded_length)

lemma enrich_length: "length (fst (enrich e vout st)) = length vout"
  by (simp add: enrich_def expanded_length)


lemma applyNames_feepool:
  "vout_feepool (applyNames names v) =
     (case vout_feepool v of
        None \<Rightarrow> None
      | Some fp \<Rightarrow>
          (case fp_currencyvalues fp of
             None \<Rightarrow> Some fp
           | Some m \<Rightarrow> Some (fp\<lparr>fp_currencyvaluesFriendly := Some (friendlyMapping names m)\<rparr>)))"
  by (simp add: applyNames_def Let_def split: option.splits)

lemma applyNames_absent:
  "vout_acceptednotarization (applyNames names v) = None \<longleftrightarrow> vout_acceptednotarization v = None"
  "vout_p2shAddress (applyNames names v) = vout_p2shAddress v"
  by (simp_all add: applyNames_def Let_def split: option.splits)









lemma transform_outputs:
  assumes "transformTransaction e opts tx st = Inr (t, st')"
    and "transformVout e opts tx = Inr vout"
  shows "t_vout t = map (applyNames (allNames e vout st)) (fst (expanded e vout st))"
    and "length (t_vout t) = length (tx_outputs tx)"
  using transformTransaction_Inr [OF assms(1)] assms(2) transformVout_nth(1) [OF assms(2)]
  by (auto simp: continueTransform_simps enrich_def expanded_length)


lemma scriptsDecoded_items:
  "fst (scriptsDecoded e vout st) = fst (decodeScripts e vout (scriptsToDecodeIndices vout) st)"
  by (simp add: scriptsDecoded_def)

lemma scriptsDecoded_nth:
  assumes "k < length (scriptsToDecodeIndices vout)"
  shows "fst (scriptsDecoded e vout st) ! k =
           \<lparr>item_idx = scriptsToDecodeIndices vout ! k,
            item_decoded = (case decodeReply e vout st k of RpcError msg \<Rightarrow> None | RpcResult r \<Rightarrow> r),
            item_type = vout_scriptDecodeType (vout ! (scriptsToDecodeIndices vout ! k))\<rparr>"
  using decodeScripts_nth [OF assms, of e vout st]
  by (simp add: scriptsDecoded_items decodeReply_def)

lemma scriptsDecoded_fields:
  assumes "k < length (scriptsToDecodeIndices vout)"
  shows "item_idx (fst (scriptsDecoded e vout st) ! k) = scriptsToDecodeIndices vout ! k"
    and "item_decoded (fst (scriptsDecoded e vout st) ! k)
           = (case decodeReply e vout st k of RpcError msg \<Rightarrow> None | RpcResult r \<Rightarrow> r)"
    and "item_type (fst (scriptsDecoded e vout st) ! k)
           = vout_scriptDecodeType (vout ! (scriptsToDecodeIndices vout ! k))"
  by (simp_all add: scriptsDecoded_nth [OF assms])

lemma scriptsDecoded_idx:
  "map item_idx (fst (scriptsDecoded e vout st)) = scriptsToDecodeIndices vout"
  by (simp add: scriptsDecoded_items decodeScripts_idx)

lemma expanded_fold:
  "expanded e vout st
     = foldl processItem (vout, wave1Addresses vout) (fst (scriptsDecoded e vout st))"
  by (simp add: expanded_def)

lemma flagged_in_range:
  "k < length (scriptsToDecodeIndices vout) \<Longrightarrow> scriptsToDecodeIndices vout ! k < length vout"
  using scriptsToDecodeIndices_set [of vout] nth_mem [of k "scriptsToDecodeIndices vout"] by blast

section \<open>The monetary fields\<close>

text \<open>
  Which quotient each monetary field holds, and whether as a number or as its
  \<^verbatim>\<open>toFixed(8)\<close> string: the enrichment leaves an output's \<^verbatim>\<open>value\<close> as \<^verbatim>\<open>transformOutput\<close>
  made it, and \<^verbatim>\<open>valueIn\<close> and \<^verbatim>\<open>fees\<close> are absent from a coinbase transaction. The digits
  of the string are a matter of floating point arithmetic, which is outside this model.
\<close>

lemma transformOutput_value:
  assumes "transformOutput e opts out i = Inr v"
  shows "vout_value v = ToFixed8 (DivBy1e8 (o_satoshis out))"
proof -
  have 1: "vout_value (asmAndSpent opts out t) = vout_value t" for t
    by (simp add: asmAndSpent_def Let_def)
  have 2: "vout_value (commitments out t) = vout_value t" for t
    by (simp add: commitments_def reserveTransferFields_def Let_def
          split: option.splits json.splits)
  have 3: "vout_value (annotateProtocol e out t) = vout_value t" for t
    by (simp add: annotateProtocol_def Let_def split: option.splits)
  have 4: "vout_value (flagOpReturn out t) = vout_value t" for t
    by (simp add: flagOpReturn_def)
  have 5: "vout_value (copyFields out t) = vout_value t" for t
    by (simp add: copyFields_def)
  from assms show ?thesis
    by (auto simp: transformOutput_def Let_def 1 2 3 4 5 baseOutput_def
          split: option.splits if_splits)
qed

lemma processItem_value: "map vout_value (fst (processItem acc item)) = map vout_value (fst acc)"
  by (simp add: processItem_def Let_def map_update map_update_same
        split: option.splits decode_type.splits)

lemma fold_processItem_value:
  "map vout_value (fst (foldl processItem acc items)) = map vout_value (fst acc)"
  by (induction items arbitrary: acc) (simp_all add: processItem_value)

lemma applyNames_value: "vout_value (applyNames names v) = vout_value v"
  by (simp add: applyNames_def Let_def split: option.splits)

lemma monetary_fields:
  assumes run: "transformTransaction e opts tx st = Inr (t, st')"
  shows "t_valueOut t = DivBy1e8 (tx_outputSatoshis tx)"
    and "t_valueIn t = (if tx_coinbase tx then None else Some (DivBy1e8 (tx_inputSatoshis tx)))"
    and "t_fees t = (if tx_coinbase tx then None else Some (DivBy1e8 (tx_feeSatoshis tx)))"
    and "i < length (tx_outputs tx) \<Longrightarrow>
           vout_value (t_vout t ! i) = ToFixed8 (DivBy1e8 (o_satoshis (tx_outputs tx ! i)))"
proof -
  from transformTransaction_Inr [OF run] obtain vin vout where
    sk: "transformVout e opts tx = Inr vout" and
    t: "t = continueTransform e opts tx
              (if tx_height tx \<ge> 0 then bitcoind_height e - tx_height tx + 1 else 0)
              vin (fst (enrich e vout st))"
    by blast
  show "t_valueOut t = DivBy1e8 (tx_outputSatoshis tx)"
    and "t_valueIn t = (if tx_coinbase tx then None else Some (DivBy1e8 (tx_inputSatoshis tx)))"
    and "t_fees t = (if tx_coinbase tx then None else Some (DivBy1e8 (tx_feeSatoshis tx)))"
    unfolding t by (simp_all add: continueTransform_def Let_def)
  assume i: "i < length (tx_outputs tx)"
  with transformVout_nth [OF sk] have len: "i < length vout"
    and out: "transformOutput e opts (tx_outputs tx ! i) i = Inr (vout ! i)" by simp_all
  have "map vout_value (fst (expanded e vout st)) ! i = map vout_value vout ! i"
    by (simp add: expanded_def fold_processItem_value)
  with len have "vout_value (fst (expanded e vout st) ! i) = vout_value (vout ! i)"
    by (simp add: expanded_length)
  moreover have "t_vout t ! i = applyNames (allNames e vout st) (fst (expanded e vout st) ! i)"
    using transform_outputs(1) [OF run sk] len by (simp add: expanded_length)
  ultimately show "vout_value (t_vout t ! i) = ToFixed8 (DivBy1e8 (o_satoshis (tx_outputs tx ! i)))"
    using transformOutput_value [OF out] by (simp add: applyNames_value)
qed

section \<open>Evaluating the examples\<close>

lemmas example_defs = exampleOptions_def exampleEntry_def exampleEnv_def exampleOutput_def
  exampleInput_def exampleTx_def importOutput_def importTx_def sameNameEnv_def feeOutput_def
  feeTx_def feeDecoded_def feeEnv_def initial_def

lemmas output_defs = transformVout_def transformOutput_def asmAndSpent_def commitments_def
  reserveTransferFields_def annotateProtocol_def outputAddress_def flagOpReturn_def
  copyFields_def baseOutput_def startsWith_def enumerate_eq_zip

lemmas enrich_defs = enrich_def allNames_def newResults_def newAddresses_def expanded_def
  namesResolved_def scriptsDecoded_def scriptsToDecodeIndices_def wave1Addresses_def
  scan_def scanStep_def collect_def processItem_def nameMapping_def friendlyKey_def
  friendlyMapping_def applyNames_def getIdentityFriendlyName_def deriveName_def
  replyFriendlyname_def replyName_def stripSuffixes_def endsWith_def sliceEnd_def
  decodeReply_def startsWith_def enumerate_eq_zip

lemmas transform_defs = transformTransaction_def transformVin_def continueTransform_def
  outputsOf_def valueinFriendlyOf_def currencyvaluesFriendlyOf_def friendlyPairs_def

lemma skeleton_Inr: "transformVout e opts tx = Inr vout \<Longrightarrow> skeleton e opts tx = vout"
  by (simp add: skeleton_def)

lemma outputsOf_Inr: "r = Inr (t, st') \<Longrightarrow> outputsOf r = t_vout t"
  by (simp add: outputsOf_def)

lemma transformOutput_env:
  assumes "PROTOCOL_ADDRESSES_DATA e = PROTOCOL_ADDRESSES_DATA e'"
    and "bitcoreAddressType e = bitcoreAddressType e'"
  shows "transformOutput e = transformOutput e'"
  by (intro ext) (simp only: transformOutput_def annotateProtocol_def assms)

lemma transformVout_env:
  assumes "PROTOCOL_ADDRESSES_DATA e = PROTOCOL_ADDRESSES_DATA e'"
    and "bitcoreAddressType e = bitcoreAddressType e'"
  shows "transformVout e = transformVout e'"
  by (intro ext) (simp only: transformVout_def transformOutput_env [OF assms])

lemma importTx_vout: "transformVout exampleEnv exampleOptions importTx = Inr [importSkeleton]"
  by (simp add: output_defs example_defs importSkeleton_def Let_def)

lemma feeTx_vout: "transformVout exampleEnv exampleOptions feeTx = Inr [feeSkeleton]"
  by (simp add: output_defs example_defs feeSkeleton_def Let_def)

lemma sameNameEnv_vout: "transformVout sameNameEnv = transformVout exampleEnv"
  by (rule transformVout_env) (simp_all add: sameNameEnv_def)

lemma feeEnv_vout: "transformVout (feeEnv friendly) = transformVout exampleEnv"
  by (rule transformVout_env) (simp_all add: feeEnv_def)

lemmas vout_evals = importTx_vout feeTx_vout sameNameEnv_vout feeEnv_vout

lemma skeleton_evals:
  "skeleton exampleEnv exampleOptions importTx = [importSkeleton]"
  "skeleton sameNameEnv exampleOptions importTx = [importSkeleton]"
  "skeleton exampleEnv exampleOptions feeTx = [feeSkeleton]"
  "skeleton (feeEnv friendly) exampleOptions feeTx = [feeSkeleton]"
  by (simp_all add: skeleton_def vout_evals)



lemma example_vin:
  "transformVin exampleOptions importTx = Inr []"
  "transformVin exampleOptions feeTx = Inr []"
  by (simp_all add: transformVin_def example_defs enumerate_eq_zip)

lemma example_outputs:
  "tx_outputs importTx = [importOutput]" "tx_outputs feeTx = [feeOutput]"
  by (simp_all add: importTx_def feeTx_def exampleTx_def)

section \<open>The enriched outputs\<close>



text \<open>
  Claim C6. When the synchronous part of a transform does not throw, the transform passes
  a transformed object to its callback, whatever the \<^verbatim>\<open>decodeScript\<close> requests answer. The
  flagged outputs are those with \<^verbatim>\<open>needsScriptDecode\<close>; when the request for the \<open>k\<close>-th
  of them fails, that output has no \<^verbatim>\<open>feepool\<close>, no \<^verbatim>\<open>acceptednotarization\<close> and no
  \<^verbatim>\<open>p2shAddress\<close> in the transformed object.
\<close>

theorem decode_error_leaves_output_plain:
  assumes vin: "transformVin opts tx = Inr vin" and sk: "transformVout e opts tx = Inr vout"
  shows "\<exists>t st'. transformTransaction e opts tx st = Inr (t, st')
         \<and> set (scriptsToDecodeIndices vout)
              = {i. i < length vout \<and> vout_needsScriptDecode (vout ! i)}
         \<and> (\<forall>k < length (scriptsToDecodeIndices vout). \<forall>msg.
               decodeReply e vout st k = RpcError msg \<longrightarrow>
                 vout_feepool (t_vout t ! (scriptsToDecodeIndices vout ! k)) = None
               \<and> vout_acceptednotarization (t_vout t ! (scriptsToDecodeIndices vout ! k)) = None
               \<and> vout_p2shAddress (t_vout t ! (scriptsToDecodeIndices vout ! k)) = None)"
proof -
  let ?idxs = "scriptsToDecodeIndices vout"
  let ?items = "fst (scriptsDecoded e vout st)"
  let ?t = "continueTransform e opts tx
              (if tx_height tx \<ge> 0 then bitcoind_height e - tx_height tx + 1 else 0)
              vin (fst (enrich e vout st))"
  have run: "transformTransaction e opts tx st = Inr (?t, snd (enrich e vout st))"
    by (rule transformTransaction_completes [OF vin sk])
  have plain: "vout_feepool (t_vout ?t ! (?idxs ! k)) = None
             \<and> vout_acceptednotarization (t_vout ?t ! (?idxs ! k)) = None
             \<and> vout_p2shAddress (t_vout ?t ! (?idxs ! k)) = None"
    if k: "k < length ?idxs" and err: "decodeReply e vout st k = RpcError msg" for k msg
  proof -
    let ?i = "?idxs ! k"
    from flagged_in_range [OF k] have i: "?i < length vout" .
    have none: "\<forall>item \<in> set ?items. item_idx item = ?i \<longrightarrow> item_decoded item = None"
    proof (intro ballI impI)
      fix item assume "item \<in> set ?items" and idx: "item_idx item = ?i"
      then obtain j where j: "j < length ?items" and item: "?items ! j = item"
        by (auto simp: in_set_conv_nth)
      from j have j': "j < length ?idxs"
        using scriptsDecoded_idx [of e vout st] by (metis length_map)
      from scriptsDecoded_fields(1) [OF j', of e st] item idx have "?idxs ! j = ?idxs ! k" by simp
      with scriptsToDecodeIndices_distinct [of vout] j' k have "j = k"
        by (simp add: nth_eq_iff_index_eq)
      with scriptsDecoded_fields(2) [OF k, of e st] item err show "item_decoded item = None"
        by simp
    qed
    have same: "fst (expanded e vout st) ! ?i = vout ! ?i"
      unfolding expanded_fold using fold_processItem_untouched [OF none] by simp
    from transformVout_nth [OF sk] i
    have "transformOutput e opts (tx_outputs tx ! ?i) ?i = Inr (vout ! ?i)" by simp
    note f = transformOutput_fields [OF this]
    have "t_vout ?t ! ?i = applyNames (allNames e vout st) (vout ! ?i)"
      using i same by (simp add: continueTransform_simps enrich_nth)
    with f show ?thesis
      by (simp add: applyNames_feepool applyNames_absent)
  qed
  from run plain scriptsToDecodeIndices_set [of vout] show ?thesis by blast
qed

theorem decode_error_leaves_output_plain_witness:
  "scriptsToDecodeIndices (skeleton exampleEnv exampleOptions feeTx) = [0]
   \<and> decodeReply exampleEnv (skeleton exampleEnv exampleOptions feeTx) initial 0
       = RpcError ''decode failed''
   \<and> length (outputsOf (transformTransaction exampleEnv exampleOptions feeTx initial)) = 1
   \<and> vout_feepool (outputsOf (transformTransaction exampleEnv exampleOptions feeTx initial) ! 0)
       = None
   \<and> vout_acceptednotarization
         (outputsOf (transformTransaction exampleEnv exampleOptions feeTx initial) ! 0) = None
   \<and> vout_p2shAddress
         (outputsOf (transformTransaction exampleEnv exampleOptions feeTx initial) ! 0) = None"
proof -
  note sk = feeTx_vout
  have idxs: "scriptsToDecodeIndices [feeSkeleton] = [0]"
    by (simp add: feeSkeleton_def enrich_defs Let_def)
  have err: "decodeReply exampleEnv [feeSkeleton] initial 0 = RpcError ''decode failed''"
    by (simp add: decodeReply_def exampleEnv_def)
  from decode_error_leaves_output_plain [OF example_vin(2) sk, of initial] obtain t st' where
    run: "transformTransaction exampleEnv exampleOptions feeTx initial = Inr (t, st')"
    and plain: "\<forall>k < length (scriptsToDecodeIndices [feeSkeleton]). \<forall>msg.
               decodeReply exampleEnv [feeSkeleton] initial k = RpcError msg \<longrightarrow>
                 vout_feepool (t_vout t ! (scriptsToDecodeIndices [feeSkeleton] ! k)) = None
               \<and> vout_acceptednotarization (t_vout t ! (scriptsToDecodeIndices [feeSkeleton] ! k))
                   = None
               \<and> vout_p2shAddress (t_vout t ! (scriptsToDecodeIndices [feeSkeleton] ! k)) = None"
    by (elim exE conjE)
  from plain idxs err have "vout_feepool (t_vout t ! 0) = None
      \<and> vout_acceptednotarization (t_vout t ! 0) = None \<and> vout_p2shAddress (t_vout t ! 0) = None"
    by simp
  moreover from transform_outputs(2) [OF run sk] have "length (t_vout t) = 1"
    by (simp add: example_outputs)
  ultimately show ?thesis
    using idxs err by (simp add: outputsOf_Inr [OF run] skeleton_evals)
qed






end
